theory Spec2Isabelle
  imports Complex_Main "HOL-Library.Char_ord" "HOL-Library.List_Lexorder" "HOL-Library.Multiset"
begin

section \<open>Values of the host language\<close>

text \<open>
  The program is written in Python over SQLite.  A text is a list of characters; a
  floating-point number is either a finite value or one of the three special values.
  Finite values are kept as exact rationals: the rounding of \<^verbatim>\<open>float\<close> to 64 binary digits
  and the overflow of huge literals to infinity are not part of this model.
\<close>

datatype pyfloat = Fin rat | PInf | NInf | NaN

text \<open>The exceptions the two source files can meet.\<close>

datatype excecao =
    ValueError | TypeError | KeyError | OverflowError | StopIteration
  | IntegrityError | CsvError

text \<open>\<^verbatim>\<open>x < k\<close> on floats: every comparison with NaN is false.\<close>

fun flt :: "pyfloat \<Rightarrow> rat \<Rightarrow> bool" where
  "flt (Fin r) k = (r < k)"
| "flt NInf k = True"
| "flt PInf k = False"
| "flt NaN k = False"

text \<open>Addition of floats and division by a positive count, as \<^verbatim>\<open>sum\<close> and \<^verbatim>\<open>/\<close> use them.\<close>

fun fadd :: "pyfloat \<Rightarrow> pyfloat \<Rightarrow> pyfloat" where
  "fadd (Fin a) (Fin b) = Fin (a + b)"
| "fadd NaN y = NaN"
| "fadd x NaN = NaN"
| "fadd PInf NInf = NaN"
| "fadd NInf PInf = NaN"
| "fadd PInf y = PInf"
| "fadd x PInf = PInf"
| "fadd NInf y = NInf"
| "fadd x NInf = NInf"

fun fdiv_nat :: "pyfloat \<Rightarrow> nat \<Rightarrow> pyfloat" where
  "fdiv_nat (Fin a) n = Fin (a / of_nat n)"
| "fdiv_nat x n = x"

subsection \<open>Reading numbers from text: \<^verbatim>\<open>int(s)\<close> and \<^verbatim>\<open>float(s)\<close>\<close>

definition eh_espaco :: "char \<Rightarrow> bool" where
  "eh_espaco c = (of_char c \<in> {9, 10, 11, 12, 13, 28, 29, 30, 31, 32, 133, 160 :: nat})"

definition strip :: "string \<Rightarrow> string" where
  "strip s = rev (dropWhile eh_espaco (rev (dropWhile eh_espaco s)))"

definition eh_digito :: "char \<Rightarrow> bool" where
  "eh_digito c = (48 \<le> (of_char c :: nat) \<and> (of_char c :: nat) \<le> 57)"

definition val_digito :: "char \<Rightarrow> nat" where
  "val_digito c = of_char c - 48"

text \<open>
  A group of decimal digits in which single underscores may stand between two digits
  (\<^verbatim>\<open>1_000\<close>); the result is the digits alone, or \<open>None\<close> when the text is not such a group.
\<close>

fun grupo_digitos :: "string \<Rightarrow> string option" where
  "grupo_digitos [] = None"
| "grupo_digitos [c] = (if eh_digito c then Some [c] else None)"
| "grupo_digitos (c # d # cs) =
     (if \<not> eh_digito c then None
      else if d = CHR ''_'' then map_option ((#) c) (grupo_digitos cs)
      else map_option ((#) c) (grupo_digitos (d # cs)))"

definition nat_de_digitos :: "string \<Rightarrow> nat" where
  "nat_de_digitos ds = foldl (\<lambda>a c. 10 * a + val_digito c) 0 ds"

text \<open>An optional sign in front of the rest of the text.\<close>

fun sinal :: "string \<Rightarrow> int \<times> string" where
  "sinal [] = (1, [])"
| "sinal (c # cs) =
     (if c = CHR ''-'' then (- 1, cs) else if c = CHR ''+'' then (1, cs) else (1, c # cs))"

definition py_int :: "string \<Rightarrow> excecao + int" where
  "py_int s =
     (case sinal (strip s) of (sg, r) \<Rightarrow>
        (case grupo_digitos r of
           None \<Rightarrow> Inl ValueError
         | Some ds \<Rightarrow> Inr (sg * int (nat_de_digitos ds))))"

definition minuscula :: "char \<Rightarrow> char" where
  "minuscula c =
     (if 65 \<le> (of_char c :: nat) \<and> (of_char c :: nat) \<le> 90
      then char_of (of_char c + 32 :: nat) else c)"

definition eh_e :: "char \<Rightarrow> bool" where
  "eh_e c = (c = CHR ''e'' \<or> c = CHR ''E'')"

text \<open>The value \<open>m\<close> times ten to the power \<open>e\<close>.\<close>

definition escala :: "int \<Rightarrow> int \<Rightarrow> rat" where
  "escala m e = (if 0 \<le> e then of_int m * 10 ^ nat e else of_int m / 10 ^ nat (- e))"

text \<open>
  The exponent part after the letter \<^verbatim>\<open>e\<close>: absent (exponent zero), or a signed group of
  digits.
\<close>

definition le_expoente :: "string \<Rightarrow> int option" where
  "le_expoente s =
     (case s of
        [] \<Rightarrow> Some 0
      | _ # r \<Rightarrow>
         (case sinal r of (sg, ds) \<Rightarrow>
            map_option (\<lambda>d. sg * int (nat_de_digitos d)) (grupo_digitos ds)))"

text \<open>
  The mantissa: digits, digits with a point, or a point with digits behind it; at least
  one digit.  The result is the digits without the point and the count of those behind it.
\<close>

definition le_mantissa :: "string \<Rightarrow> (string \<times> nat) option" where
  "le_mantissa s =
     (let ip = takeWhile (\<lambda>c. c \<noteq> CHR ''.'') s;
          fp = drop 1 (dropWhile (\<lambda>c. c \<noteq> CHR ''.'') s);
          ponto = (CHR ''.'' \<in> set s)
      in if \<not> ponto then map_option (\<lambda>d. (d, 0)) (grupo_digitos ip)
         else if ip = [] \<and> fp = [] then None
         else
           (case (if ip = [] then Some [] else grupo_digitos ip,
                  if fp = [] then Some [] else grupo_digitos fp) of
              (Some a, Some b) \<Rightarrow> Some (a @ b, length b)
            | _ \<Rightarrow> None))"

definition py_float :: "string \<Rightarrow> excecao + pyfloat" where
  "py_float s =
     (case sinal (strip s) of (sg, r) \<Rightarrow>
        (let w = map minuscula r in
         if w = ''inf'' \<or> w = ''infinity'' then Inr (if sg < 0 then NInf else PInf)
         else if w = ''nan'' then Inr NaN
         else
           (case (le_mantissa (takeWhile (\<lambda>c. \<not> eh_e c) r),
                  le_expoente (dropWhile (\<lambda>c. \<not> eh_e c) r)) of
              (Some (ds, k), Some e) \<Rightarrow>
                Inr (Fin (escala (sg * int (nat_de_digitos ds)) (e - int k)))
            | _ \<Rightarrow> Inl ValueError)))"


subsection \<open>Numbers that arrive as JSON values\<close>

text \<open>
  The web front end applies \<^verbatim>\<open>int\<close> and \<^verbatim>\<open>float\<close> to values of a JSON body: null, a truth
  value, an integer, a float, a text, or a list or object.
\<close>

datatype json = JNull | JBool bool | JInt int | JFloat pyfloat | JStr string | JComposto

fun py_int_de :: "json \<Rightarrow> excecao + int" where
  "py_int_de JNull = Inl TypeError"
| "py_int_de (JBool b) = Inr (if b then 1 else 0)"
| "py_int_de (JInt n) = Inr n"
| "py_int_de (JFloat (Fin r)) = Inr (if 0 \<le> r then \<lfloor>r\<rfloor> else \<lceil>r\<rceil>)"
| "py_int_de (JFloat NaN) = Inl ValueError"
| "py_int_de (JFloat PInf) = Inl OverflowError"
| "py_int_de (JFloat NInf) = Inl OverflowError"
| "py_int_de (JStr s) = py_int s"
| "py_int_de JComposto = Inl TypeError"

fun py_float_de :: "json \<Rightarrow> excecao + pyfloat" where
  "py_float_de JNull = Inl TypeError"
| "py_float_de (JBool b) = Inr (Fin (if b then 1 else 0))"
| "py_float_de (JInt n) = Inr (Fin (of_int n))"
| "py_float_de (JFloat f) = Inr f"
| "py_float_de (JStr s) = py_float s"
| "py_float_de JComposto = Inl TypeError"

section \<open>The store: table \<^verbatim>\<open>livros\<close> and the backup directory\<close>

record livro =
  id_livro :: int
  titulo :: string
  autor :: string
  ano_publicacao :: int
  preco :: pyfloat

text \<open>
  A snapshot file \<^verbatim>\<open>backup_livraria_<timestamp>.db\<close>.  Its name is fixed by the second in
  which it was taken (\<open>carimbo\<close>); \<^verbatim>\<open>shutil.copy2\<close> gives it the content and the modification
  time of the database file.
\<close>

record backup =
  carimbo :: int
  mtime :: rat
  copia :: "livro list"

text \<open>
  The state of an initialised system: the rows of the table in id order, the counter of
  \<^verbatim>\<open>AUTOINCREMENT\<close> (the largest id ever given), the modification time of the database
  file, and the backup directory in the order in which \<^verbatim>\<open>glob\<close> lists it.
\<close>

record estado =
  livros :: "livro list"
  seq :: int
  db_mtime :: rat
  backups :: "backup list"

text \<open>What \<^verbatim>\<open>datetime.now()\<close> gives an operation: the instant in seconds, and the year.\<close>

record ambiente =
  agora :: rat
  ano_atual :: int

subsection \<open>Backup and retention\<close>

text \<open>\<^verbatim>\<open>shutil.copy2\<close>: a file of the same name is overwritten, a new name is a new file.\<close>

definition copy2 :: "backup \<Rightarrow> backup list \<Rightarrow> backup list" where
  "copy2 novo bs =
     (if carimbo novo \<in> carimbo ` set bs
      then map (\<lambda>b. if carimbo b = carimbo novo then novo else b) bs
      else bs @ [novo])"

definition unlink :: "backup \<Rightarrow> backup list \<Rightarrow> backup list" where
  "unlink b bs = filter (\<lambda>x. carimbo x \<noteq> carimbo b) bs"

text \<open>
  \<^verbatim>\<open>sorted(..., key=os.path.getmtime, reverse=True)\<close> is a stable sort by falling
  modification time; every file after the fifth is deleted.
\<close>

definition limpar_backups_antigos :: "backup list \<Rightarrow> backup list" where
  "limpar_backups_antigos bs =
     fold unlink (drop 5 (sort_key (\<lambda>b. - mtime b) bs)) bs"

text \<open>
  The database file of an initialised system exists, so the guard of the source for a
  missing file never fires here.
\<close>

definition instantaneo :: "ambiente \<Rightarrow> estado \<Rightarrow> backup" where
  "instantaneo env st = \<lparr>carimbo = \<lfloor>agora env\<rfloor>, mtime = db_mtime st, copia = livros st\<rparr>"

definition fazer_backup :: "ambiente \<Rightarrow> estado \<Rightarrow> estado" where
  "fazer_backup env st =
     st\<lparr>backups := limpar_backups_antigos (copy2 (instantaneo env st) (backups st))\<rparr>"

subsection \<open>The statements sent to SQLite\<close>

text \<open>
  \<^verbatim>\<open>INSERT\<close>: an integer outside 64 bits cannot be bound, and NaN is bound as NULL, which
  the \<^verbatim>\<open>NOT NULL\<close> column refuses.  The new row gets the next id of the counter.
\<close>

definition sql_insert ::
  "string \<Rightarrow> string \<Rightarrow> int \<Rightarrow> pyfloat \<Rightarrow> estado \<Rightarrow> excecao + (int \<times> estado)" where
  "sql_insert t a ano p st =
     (if ano < - (2 ^ 63) \<or> 2 ^ 63 \<le> ano then Inl OverflowError
      else if p = NaN then Inl IntegrityError
      else
        (let i = seq st + 1 in
         Inr (i, st\<lparr>livros := livros st @
                  [\<lparr>id_livro = i, titulo = t, autor = a, ano_publicacao = ano, preco = p\<rparr>],
                seq := i\<rparr>)))"

definition sql_select_id :: "int \<Rightarrow> estado \<Rightarrow> livro option" where
  "sql_select_id i st = find (\<lambda>l. id_livro l = i) (livros st)"



text \<open>\<^verbatim>\<open>conn.commit()\<close> writes the changes to the database file.\<close>

definition commit :: "ambiente \<Rightarrow> estado \<Rightarrow> estado" where
  "commit env st = st\<lparr>db_mtime := agora env\<rparr>"


section \<open>The book repository\<close>

subsection \<open>Web front end (\<^verbatim>\<open>app.py\<close>)\<close>

text \<open>
  The body of a request, read with \<^verbatim>\<open>dados['...']\<close>: a missing key is \<open>None\<close>.  Title and
  author are texts; year and price are any JSON value.
\<close>

record dados =
  d_titulo :: "string option"
  d_autor :: "string option"
  d_ano_publicacao :: "json option"
  d_preco :: "json option"

text \<open>The \<^verbatim>\<open>erro\<close> text of a reply: one of the fixed messages, or \<^verbatim>\<open>str(e)\<close>.\<close>

datatype mensagem =
    AnoInvalido | PrecoNegativo | NaoEncontrado | NenhumLivro
  | NenhumArquivoEnviado | NenhumArquivoSelecionado | ApenasCsv | DeExcecao excecao

text \<open>One line of the error list of an import: \<^verbatim>\<open>Linha {idx}: ...\<close>.\<close>

datatype erro_linha =
    ErroAno nat int | ErroPreco nat pyfloat | ErroExcecao nat excecao

fun linha_de :: "erro_linha \<Rightarrow> nat" where
  "linha_de (ErroAno i a) = i"
| "linha_de (ErroPreco i p) = i"
| "linha_de (ErroExcecao i e) = i"

datatype corpo =
    Erro mensagem
  | LivroCriado livro
  | Sucesso
  | Lista "livro list"
  | Importacao nat "erro_linha list"
  | Arquivo string

text \<open>A reply: the HTTP status and the JSON body.\<close>

type_synonym resposta = "nat \<times> corpo"

text \<open>
  The first four statements of \<^verbatim>\<open>adicionar_livro\<close>: two lookups, \<^verbatim>\<open>int\<close> and \<^verbatim>\<open>float\<close>, each
  of which may raise.
\<close>

definition ler_dados :: "dados \<Rightarrow> excecao + (string \<times> string \<times> int \<times> pyfloat)" where
  "ler_dados d =
     (case d_titulo d of None \<Rightarrow> Inl KeyError | Some t \<Rightarrow>
      (case d_autor d of None \<Rightarrow> Inl KeyError | Some a \<Rightarrow>
       (case d_ano_publicacao d of None \<Rightarrow> Inl KeyError | Some ja \<Rightarrow>
        (case py_int_de ja of Inl e \<Rightarrow> Inl e | Inr ano \<Rightarrow>
         (case d_preco d of None \<Rightarrow> Inl KeyError | Some jp \<Rightarrow>
          (case py_float_de jp of Inl e \<Rightarrow> Inl e | Inr p \<Rightarrow> Inr (t, a, ano, p)))))))"

definition adicionar_livro_api :: "ambiente \<Rightarrow> dados \<Rightarrow> estado \<Rightarrow> resposta \<times> estado" where
  "adicionar_livro_api env d st =
     (case ler_dados d of
        Inl e \<Rightarrow> ((400, Erro (DeExcecao e)), st)
      | Inr (t, a, ano, p) \<Rightarrow>
          if ano < 0 \<or> ano > ano_atual env then ((400, Erro AnoInvalido), st)
          else if flt p 0 then ((400, Erro PrecoNegativo), st)
          else
            (let st1 = fazer_backup env st in
             case sql_insert t a ano p st1 of
               Inl e \<Rightarrow> ((400, Erro (DeExcecao e)), st1)
             | Inr (i, st2) \<Rightarrow>
                 ((201, LivroCriado \<lparr>id_livro = i, titulo = t, autor = a,
                                     ano_publicacao = ano, preco = p\<rparr>),
                  commit env st2)))"



subsection \<open>Menu front end (\<^verbatim>\<open>sistema_livraria.py\<close>)\<close>

text \<open>
  A method of \<^verbatim>\<open>SistemaLivraria\<close> prints some lines and returns a truth value
  (\<open>Retorna\<close>) or nothing (\<open>Devolve\<close>), or lets an exception escape.  The menu passes every field as the text the user typed; the id
  reaches SQLite, which compares it with the integer key.
\<close>

datatype linha_impressa =
    MsgAnoInvalido | MsgPrecoNegativo | MsgAnoOuPrecoInvalido | MsgPrecoInvalido
  | MsgNaoEncontrado int | MsgAdicionado | MsgAtualizado | MsgRemovido
  | MsgNenhumEncontrado | MsgEncontrados "livro list"
  | MsgNenhumParaExportar | MsgExportados nat
  | MsgArquivoNaoEncontrado | MsgErroAoImportar "string list" excecao | MsgImportados nat

datatype retorno = Retorna bool "linha_impressa list" | Devolve "linha_impressa list" | Levanta excecao




section \<open>CSV text\<close>

abbreviation CR :: char where "CR \<equiv> CHR 0x0D"
abbreviation LF :: char where "LF \<equiv> CHR 0x0A"
abbreviation ASPAS :: char where "ASPAS \<equiv> CHR 0x22"
abbreviation VIRGULA :: char where "VIRGULA \<equiv> CHR 0x2C"

subsection \<open>Writing numbers: \<^verbatim>\<open>str(int)\<close> and \<^verbatim>\<open>repr(float)\<close>\<close>

definition char_digito :: "nat \<Rightarrow> char" where
  "char_digito d = char_of (48 + d)"

fun digitos_de :: "nat \<Rightarrow> string" where
  "digitos_de n =
     (if n < 10 then [char_digito n] else digitos_de (n div 10) @ [char_digito (n mod 10)])"

declare digitos_de.simps [simp del]

definition str_int :: "int \<Rightarrow> string" where
  "str_int i = (if i < 0 then CHR ''-'' # digitos_de (nat (- i)) else digitos_de (nat i))"

text \<open>
  The number of decimal places of a non-negative rational: the least \<open>k\<close> for which
  \<open>r * 10 ^ k\<close> is whole, searched for with as many tries as the denominator is large
  (enough whenever there is one).
\<close>

fun casas :: "nat \<Rightarrow> rat \<Rightarrow> nat \<Rightarrow> nat option" where
  "casas 0 r k = None"
| "casas (Suc f) r k = (if r = of_int \<lfloor>r\<rfloor> then Some k else casas f (r * 10) (Suc k))"

definition tira_zeros :: "string \<Rightarrow> string" where
  "tira_zeros ds = rev (dropWhile (\<lambda>c. c = CHR ''0'') (rev ds))"

text \<open>
  \<^verbatim>\<open>repr\<close> of a finite float with the digits \<open>ds\<close> and the decimal point \<open>decpt\<close> places after
  their start: plain notation when \<open>-4 < decpt \<le> 16\<close>, otherwise a mantissa and an exponent
  of at least two digits.
\<close>

definition formata :: "string \<Rightarrow> int \<Rightarrow> string" where
  "formata ds decpt =
     (if decpt \<le> - 4 \<or> decpt > 16 then
        take 1 ds @ (if length ds > 1 then CHR ''.'' # drop 1 ds else []) @ ''e'' @
        (if decpt - 1 < 0 then ''-'' else ''+'') @
        (if \<bar>decpt - 1\<bar> < 10 then ''0'' else []) @ digitos_de (nat \<bar>decpt - 1\<bar>)
      else if decpt \<le> 0 then ''0.'' @ replicate (nat (- decpt)) CHR ''0'' @ ds
      else if decpt < int (length ds) then take (nat decpt) ds @ CHR ''.'' # drop (nat decpt) ds
      else ds @ replicate (nat decpt - length ds) CHR ''0'' @ ''.0'')"

text \<open>
  The digits of a non-negative finite value are those of its exact decimal expansion.  A
  rational with no finite expansion is not the value of any float (every float is a whole
  number of powers of two); the text given for it is a placeholder.
\<close>

definition repr_abs :: "rat \<Rightarrow> string" where
  "repr_abs r =
     (case casas (nat (snd (quotient_of r))) r 0 of
        None \<Rightarrow> ''nan''
      | Some k \<Rightarrow>
          (let m = nat \<lfloor>r * 10 ^ k\<rfloor>; ds = digitos_de m in
           if m = 0 then ''0.0''
           else formata (tira_zeros ds) (int (length ds) - int k)))"

fun float_repr :: "pyfloat \<Rightarrow> string" where
  "float_repr (Fin r) = (if r < 0 then CHR ''-'' # repr_abs (- r) else repr_abs r)"
| "float_repr PInf = ''inf''"
| "float_repr NInf = ''-inf''"
| "float_repr NaN = ''nan''"

subsection \<open>\<^verbatim>\<open>csv.writer\<close> with the default dialect\<close>

definition precisa_aspas :: "string \<Rightarrow> bool" where
  "precisa_aspas f = (set f \<inter> {VIRGULA, ASPAS, CR, LF} \<noteq> {})"

definition escreve_campo :: "string \<Rightarrow> string" where
  "escreve_campo f =
     (if precisa_aspas f
      then ASPAS # concat (map (\<lambda>c. if c = ASPAS then [ASPAS, ASPAS] else [c]) f) @ [ASPAS]
      else f)"

fun junta :: "string list \<Rightarrow> string" where
  "junta [] = []"
| "junta [f] = f"
| "junta (f # g # fs) = f @ VIRGULA # junta (g # fs)"

text \<open>One record and its terminator; a record of one empty field is written quoted.\<close>

definition writerow :: "string list \<Rightarrow> string" where
  "writerow fs = (if fs = [[]] then [ASPAS, ASPAS] else junta (map escreve_campo fs)) @ [CR, LF]"

definition writerows :: "string list list \<Rightarrow> string" where
  "writerows rs = concat (map writerow rs)"

subsection \<open>Reading a text file\<close>

text \<open>
  \<^verbatim>\<open>open(path, 'r')\<close> without \<^verbatim>\<open>newline=''\<close> reads with universal newlines: a carriage return,
  alone or before a line feed, arrives as one line feed.
\<close>

fun traduz_nl :: "string \<Rightarrow> string" where
  "traduz_nl [] = []"
| "traduz_nl [c] = [if c = CR then LF else c]"
| "traduz_nl (c # d # cs) =
     (if c = CR \<and> d = LF then LF # traduz_nl cs
      else (if c = CR then LF else c) # traduz_nl (d # cs))"

text \<open>The lines a file object yields, each with its line feed (the last may lack it).\<close>

fun linhas_aux :: "string \<Rightarrow> string \<Rightarrow> string list" where
  "linhas_aux ac [] = (if ac = [] then [] else [rev ac])"
| "linhas_aux ac (c # cs) =
     (if c = LF then rev (c # ac) # linhas_aux [] cs else linhas_aux (c # ac) cs)"

definition linhas :: "string \<Rightarrow> string list" where
  "linhas s = linhas_aux [] s"

subsection \<open>\<^verbatim>\<open>csv.reader\<close> with the default dialect\<close>

text \<open>
  The states of the parser that the default dialect can reach (it has no escape
  character), and what it holds: the fields of the record so far, the field being read.
\<close>

datatype fase_leitor =
    START_RECORD | START_FIELD | IN_FIELD | IN_QUOTED_FIELD | QUOTE_IN_QUOTED_FIELD | EAT_CRNL

record leitor =
  campos :: "string list"
  campo :: string
  fase :: fase_leitor

definition leitor_inicial :: leitor where
  "leitor_inicial = \<lparr>campos = [], campo = [], fase = START_RECORD\<rparr>"

definition field_limit :: nat where
  "field_limit = 131072"

definition parse_save_field :: "leitor \<Rightarrow> leitor" where
  "parse_save_field L = L\<lparr>campos := campos L @ [campo L], campo := []\<rparr>"

definition parse_add_char :: "char \<Rightarrow> leitor \<Rightarrow> excecao + leitor" where
  "parse_add_char c L =
     (if length (campo L) \<ge> field_limit then Inl CsvError
      else Inr (L\<lparr>campo := campo L @ [c]\<rparr>))"

text \<open>What the parser is fed: a character of the line, or the end of the line.\<close>

datatype entrada = Car char | EOL

definition eh_quebra :: "entrada \<Rightarrow> bool" where
  "eh_quebra x = (x = Car LF \<or> x = Car CR)"

definition fim_de_campo :: "entrada \<Rightarrow> leitor \<Rightarrow> leitor" where
  "fim_de_campo x L = (parse_save_field L)\<lparr>fase := (if x = EOL then START_RECORD else EAT_CRNL)\<rparr>"

fun parse_process_char :: "leitor \<Rightarrow> entrada \<Rightarrow> excecao + leitor" where
  "parse_process_char L x =
     (case fase L of
        START_RECORD \<Rightarrow>
          if x = EOL then Inr L
          else if eh_quebra x then Inr (L\<lparr>fase := EAT_CRNL\<rparr>)
          else if x = Car ASPAS then Inr (L\<lparr>fase := IN_QUOTED_FIELD\<rparr>)
          else if x = Car VIRGULA then Inr ((parse_save_field L)\<lparr>fase := START_FIELD\<rparr>)
          else (case x of Car c \<Rightarrow>
                  map_sum id (\<lambda>M. M\<lparr>fase := IN_FIELD\<rparr>) (parse_add_char c L)
                | EOL \<Rightarrow> Inr L)
      | START_FIELD \<Rightarrow>
          if eh_quebra x \<or> x = EOL then Inr (fim_de_campo x L)
          else if x = Car ASPAS then Inr (L\<lparr>fase := IN_QUOTED_FIELD\<rparr>)
          else if x = Car VIRGULA then Inr (parse_save_field L)
          else (case x of Car c \<Rightarrow>
                  map_sum id (\<lambda>M. M\<lparr>fase := IN_FIELD\<rparr>) (parse_add_char c L)
                | EOL \<Rightarrow> Inr L)
      | IN_FIELD \<Rightarrow>
          if eh_quebra x \<or> x = EOL then Inr (fim_de_campo x L)
          else if x = Car VIRGULA then Inr ((parse_save_field L)\<lparr>fase := START_FIELD\<rparr>)
          else (case x of Car c \<Rightarrow> parse_add_char c L | EOL \<Rightarrow> Inr L)
      | IN_QUOTED_FIELD \<Rightarrow>
          (case x of
             EOL \<Rightarrow> Inr L
           | Car c \<Rightarrow>
               if c = ASPAS then Inr (L\<lparr>fase := QUOTE_IN_QUOTED_FIELD\<rparr>)
               else parse_add_char c L)
      | QUOTE_IN_QUOTED_FIELD \<Rightarrow>
          if x = Car ASPAS
          then map_sum id (\<lambda>M. M\<lparr>fase := IN_QUOTED_FIELD\<rparr>) (parse_add_char ASPAS L)
          else if x = Car VIRGULA then Inr ((parse_save_field L)\<lparr>fase := START_FIELD\<rparr>)
          else if eh_quebra x \<or> x = EOL then Inr (fim_de_campo x L)
          else (case x of Car c \<Rightarrow>
                  map_sum id (\<lambda>M. M\<lparr>fase := IN_FIELD\<rparr>) (parse_add_char c L)
                | EOL \<Rightarrow> Inr L)
      | EAT_CRNL \<Rightarrow>
          if eh_quebra x then Inr L
          else if x = EOL then Inr (L\<lparr>fase := START_RECORD\<rparr>)
          else Inl CsvError)"

declare parse_process_char.simps [simp del]

text \<open>All the characters of one line, then the end of the line.\<close>

fun processa_linha :: "leitor \<Rightarrow> string \<Rightarrow> excecao + leitor" where
  "processa_linha L [] = parse_process_char L EOL"
| "processa_linha L (c # cs) =
     (case parse_process_char L (Car c) of
        Inl e \<Rightarrow> Inl e
      | Inr M \<Rightarrow> processa_linha M cs)"

text \<open>
  The records of a file: each call of the iterator feeds lines to a fresh parser until it
  is back at the start of a record; at the end of the input an open field closes the
  last record.  The iterator is run to its end here; a parse error is the result of the
  whole, since no row read before it is ever committed.
\<close>

fun le_registros :: "leitor \<Rightarrow> string list \<Rightarrow> excecao + string list list" where
  "le_registros L [] =
     (if campo L \<noteq> [] \<or> fase L = IN_QUOTED_FIELD
      then Inr [campos (parse_save_field L)] else Inr [])"
| "le_registros L (l # ls) =
     (case processa_linha L l of
        Inl e \<Rightarrow> Inl e
      | Inr M \<Rightarrow>
          if fase M = START_RECORD
          then (case le_registros leitor_inicial ls of
                  Inl e \<Rightarrow> Inl e
                | Inr rs \<Rightarrow> Inr (campos M # rs))
          else le_registros M ls)"

definition csv_reader :: "string \<Rightarrow> excecao + string list list" where
  "csv_reader conteudo = le_registros leitor_inicial (linhas (traduz_nl conteudo))"

section \<open>CSV export and import\<close>

text \<open>The tuple of a row as \<^verbatim>\<open>csv.writer\<close> writes it: every value through \<^verbatim>\<open>str\<close>.\<close>

definition campos_de_livro :: "livro \<Rightarrow> string list" where
  "campos_de_livro l =
     [str_int (id_livro l), titulo l, autor l, str_int (ano_publicacao l), float_repr (preco l)]"

definition cabecalho :: "string list" where
  "cabecalho =
     [''ID'', ''T'' @ [CHR 0xED] @ ''tulo'', ''Autor'',
      ''Ano de Publica'' @ [CHR 0xE7, CHR 0xE3] @ ''o'', ''Pre'' @ [CHR 0xE7] @ ''o'']"

definition conteudo_csv :: "livro list \<Rightarrow> string" where
  "conteudo_csv ls = writerow cabecalho @ writerows (map campos_de_livro ls)"

text \<open>
  Both exports refuse an empty table and otherwise write the same text: the menu to a
  file of a fixed name, the web front end to a file it sends back.  The second component
  is the file written, if any.
\<close>

definition exportar_para_csv_cli :: "estado \<Rightarrow> retorno \<times> string option" where
  "exportar_para_csv_cli st =
     (if livros st = [] then (Retorna False [MsgNenhumParaExportar], None)
      else (Retorna True [MsgExportados (length (livros st))], Some (conteudo_csv (livros st))))"

definition exportar_csv_api :: "estado \<Rightarrow> resposta" where
  "exportar_csv_api st =
     (if livros st = [] then (400, Erro NenhumLivro)
      else (200, Arquivo (conteudo_csv (livros st))))"

subsection \<open>Import of the web front end\<close>

text \<open>
  The running totals of the loop: rows imported, error lines, and the table with the rows
  inserted so far (not yet committed).
\<close>

type_synonym andamento = "nat \<times> erro_linha list \<times> estado"

text \<open>
  The body of the loop for the row numbered \<open>idx\<close>.  \<^verbatim>\<open>ValueError\<close> (also from unpacking a
  row of more than five fields) and the errors of SQLite are caught and recorded; any
  other exception leaves the loop.
\<close>

definition importar_linha_api ::
  "ambiente \<Rightarrow> nat \<Rightarrow> string list \<Rightarrow> andamento \<Rightarrow> excecao + andamento" where
  "importar_linha_api env idx row acc =
     (case acc of (n, erros, st) \<Rightarrow>
      if length row \<ge> 5 then
        (case row of
           [x, t, a, ano_txt, preco_txt] \<Rightarrow>
             (case py_int ano_txt of
                Inl e \<Rightarrow> Inr (n, erros @ [ErroExcecao idx e], st)
              | Inr ano \<Rightarrow>
                 (case py_float preco_txt of
                    Inl e \<Rightarrow> Inr (n, erros @ [ErroExcecao idx e], st)
                  | Inr p \<Rightarrow>
                      if ano < 0 \<or> ano > ano_atual env
                      then Inr (n, erros @ [ErroAno idx ano], st)
                      else if flt p 0 then Inr (n, erros @ [ErroPreco idx p], st)
                      else
                        (case sql_insert t a ano p st of
                           Inl e \<Rightarrow>
                             if e = IntegrityError
                             then Inr (n, erros @ [ErroExcecao idx e], st)
                             else Inl e
                         | Inr (i, st') \<Rightarrow> Inr (n + 1, erros, st'))))
         | _ \<Rightarrow> Inr (n, erros @ [ErroExcecao idx ValueError], st))
      else Inr acc)"

fun importar_linhas_api ::
  "ambiente \<Rightarrow> (nat \<times> string list) list \<Rightarrow> andamento \<Rightarrow> excecao + andamento" where
  "importar_linhas_api env [] acc = Inr acc"
| "importar_linhas_api env ((idx, row) # resto) acc =
     (case importar_linha_api env idx row acc of
        Inl e \<Rightarrow> Inl e
      | Inr acc' \<Rightarrow> importar_linhas_api env resto acc')"

text \<open>\<^verbatim>\<open>enumerate(reader, start=2)\<close>.\<close>

definition enumerate2 :: "string list list \<Rightarrow> (nat \<times> string list) list" where
  "enumerate2 rows = zip [2 ..< 2 + length rows] rows"

definition termina_com :: "string \<Rightarrow> string \<Rightarrow> bool" where
  "termina_com suf s = (length suf \<le> length s \<and> drop (length s - length suf) s = suf)"

text \<open>
  The upload is absent or a file name with the content of the file.  Every exception
  ends in the reply 400; the rows inserted before it are never committed, the snapshot
  stays.  A commit after no insert does not touch the database file.
\<close>

definition importar_csv_api ::
  "ambiente \<Rightarrow> (string \<times> string) option \<Rightarrow> estado \<Rightarrow> resposta \<times> estado" where
  "importar_csv_api env upload st =
     (case upload of
        None \<Rightarrow> ((400, Erro NenhumArquivoEnviado), st)
      | Some (nome, conteudo) \<Rightarrow>
          if nome = [] then ((400, Erro NenhumArquivoSelecionado), st)
          else if \<not> termina_com ''.csv'' nome then ((400, Erro ApenasCsv), st)
          else
            (let st1 = fazer_backup env st in
             case csv_reader conteudo of
               Inl e \<Rightarrow> ((400, Erro (DeExcecao e)), st1)
             | Inr [] \<Rightarrow> ((400, Erro (DeExcecao StopIteration)), st1)
             | Inr (cab # rows) \<Rightarrow>
                 (case importar_linhas_api env (enumerate2 rows) (0, [], st1) of
                    Inl e \<Rightarrow> ((400, Erro (DeExcecao e)), st1)
                  | Inr (n, erros, st2) \<Rightarrow>
                      ((200, Importacao n erros), if n = 0 then st2 else commit env st2))))"

subsection \<open>Import of the menu front end\<close>

text \<open>
  The loop of \<^verbatim>\<open>importar_de_csv\<close>: no check of year or price; a caught exception prints the
  row.  The totals are the rows imported, the lines printed and the table.
\<close>

type_synonym andamento_cli = "nat \<times> linha_impressa list \<times> estado"

definition importar_linha_cli :: "string list \<Rightarrow> andamento_cli \<Rightarrow> excecao + andamento_cli" where
  "importar_linha_cli row acc =
     (case acc of (n, impresso, st) \<Rightarrow>
      if length row \<ge> 5 then
        (case row of
           [x, t, a, ano_txt, preco_txt] \<Rightarrow>
             (case py_int ano_txt of
                Inl e \<Rightarrow> Inr (n, impresso @ [MsgErroAoImportar row e], st)
              | Inr ano \<Rightarrow>
                 (case py_float preco_txt of
                    Inl e \<Rightarrow> Inr (n, impresso @ [MsgErroAoImportar row e], st)
                  | Inr p \<Rightarrow>
                     (case sql_insert t a ano p st of
                        Inl e \<Rightarrow>
                          if e = IntegrityError
                          then Inr (n, impresso @ [MsgErroAoImportar row e], st)
                          else Inl e
                      | Inr (i, st') \<Rightarrow> Inr (n + 1, impresso, st'))))
         | _ \<Rightarrow> Inr (n, impresso @ [MsgErroAoImportar row ValueError], st))
      else Inr acc)"

fun importar_linhas_cli :: "string list list \<Rightarrow> andamento_cli \<Rightarrow> excecao + andamento_cli" where
  "importar_linhas_cli [] acc = Inr acc"
| "importar_linhas_cli (row # resto) acc =
     (case importar_linha_cli row acc of
        Inl e \<Rightarrow> Inl e
      | Inr acc' \<Rightarrow> importar_linhas_cli resto acc')"

text \<open>
  The file at the path given is absent or has a content.  An exception outside the loop
  body is not caught: it leaves the method, and nothing of the import is committed.
\<close>

definition importar_de_csv_cli :: "ambiente \<Rightarrow> string option \<Rightarrow> estado \<Rightarrow> retorno \<times> estado" where
  "importar_de_csv_cli env arquivo st =
     (case arquivo of
        None \<Rightarrow> (Retorna False [MsgArquivoNaoEncontrado], st)
      | Some conteudo \<Rightarrow>
          (let st1 = fazer_backup env st in
           case csv_reader conteudo of
             Inl e \<Rightarrow> (Levanta e, st1)
           | Inr [] \<Rightarrow> (Levanta StopIteration, st1)
           | Inr (cab # rows) \<Rightarrow>
               (case importar_linhas_cli rows (0, [], st1) of
                  Inl e \<Rightarrow> (Levanta e, st1)
                | Inr (n, impresso, st2) \<Rightarrow>
                    (Retorna True (impresso @ [MsgImportados n]),
                     if n = 0 then st2 else commit env st2))))"

section \<open>Search by author\<close>

text \<open>
  The operator \<^verbatim>\<open>LIKE\<close> of SQLite: \<^verbatim>\<open>%\<close> in the pattern stands for any run of characters,
  \<^verbatim>\<open>_\<close> for any one character, and every other character for itself in either case of the
  letters of ASCII.
\<close>

fun like :: "string \<Rightarrow> string \<Rightarrow> bool" where
  "like [] s = (s = [])"
| "like (p # ps) [] = (p = CHR ''%'' \<and> like ps [])"
| "like (p # ps) (c # cs) =
     (if p = CHR ''%'' then like ps (c # cs) \<or> like (p # ps) cs
      else (p = CHR ''_'' \<or> minuscula p = minuscula c) \<and> like ps cs)"

text \<open>
  \<^verbatim>\<open>SELECT * FROM livros WHERE autor LIKE '%' || ? || '%' ORDER BY titulo\<close>: texts are ordered
  character by character; the order of rows with the same title is not fixed by the
  query (here they stay in id order).
\<close>

definition sql_select_autor :: "string \<Rightarrow> estado \<Rightarrow> livro list" where
  "sql_select_autor a st =
     sort_key titulo (filter (\<lambda>l. like (''%'' @ a @ ''%'') (autor l)) (livros st))"


definition buscar_por_autor_cli :: "string \<Rightarrow> estado \<Rightarrow> retorno" where
  "buscar_por_autor_cli a st =
     (if sql_select_autor a st = [] then Devolve [MsgNenhumEncontrado]
      else Devolve [MsgEncontrados (sql_select_autor a st)])"

section \<open>Statistics\<close>

text \<open>The four labels of the \<^verbatim>\<open>CASE\<close> expression over the price.\<close>

datatype faixa = Ate20 | De20a50 | De50a100 | Acima100

definition faixa_de :: "pyfloat \<Rightarrow> faixa" where
  "faixa_de p =
     (if flt p 20 then Ate20 else if flt p 50 then De20a50
      else if flt p 100 then De50a100 else Acima100)"

text \<open>
  \<^verbatim>\<open>SELECT faixa, COUNT(*) FROM livros GROUP BY faixa\<close>: one row for every label that some
  book has, with the count of its books.  The groups come in the order of the label
  texts (\<^verbatim>\<open>Acima de R$ 100\<close>, \<^verbatim>\<open>Ate R$ 20\<close>, \<^verbatim>\<open>R$ 20-50\<close>, \<^verbatim>\<open>R$ 50-100\<close>), an order the query
  does not promise.
\<close>

definition distribuicao_precos :: "estado \<Rightarrow> (faixa \<times> nat) list" where
  "distribuicao_precos st =
     filter (\<lambda>(f, n). n > 0)
       (map (\<lambda>f. (f, length (filter (\<lambda>l. faixa_de (preco l) = f) (livros st))))
          [Acima100, Ate20, De20a50, De50a100])"

text \<open>The four figures at the head of the report; \<^verbatim>\<open>sum\<close> adds from the left, starting at 0.\<close>

record resumo =
  total_livros :: nat
  autores_unicos :: nat
  valor_total :: pyfloat
  preco_medio :: pyfloat

definition soma_precos :: "livro list \<Rightarrow> pyfloat" where
  "soma_precos ls = foldl fadd (Fin 0) (map preco ls)"

definition gerar_relatorio_html :: "estado \<Rightarrow> mensagem + resumo" where
  "gerar_relatorio_html st =
     (let ls = sort_key titulo (livros st) in
      if ls = [] then Inl NenhumLivro
      else Inr \<lparr>total_livros = length ls,
                autores_unicos = card (set (map autor ls)),
                valor_total = soma_precos ls,
                preco_medio = fdiv_nat (soma_precos ls) (length ls)\<rparr>)"

section \<open>Concrete inputs\<close>

text \<open>A freshly initialised system, and a moment of the year 2025.\<close>

definition loja_vazia :: estado where
  "loja_vazia = \<lparr>livros = [], seq = 0, db_mtime = 0, backups = []\<rparr>"

definition amb :: ambiente where
  "amb = \<lparr>agora = 1000, ano_atual = 2025\<rparr>"

definition um_livro :: livro where
  "um_livro = \<lparr>id_livro = 1, titulo = ''Dom Casmurro'', autor = ''Machado de Assis'',
                ano_publicacao = 1899, preco = Fin 30\<rparr>"

definition loja_um :: estado where
  "loja_um = \<lparr>livros = [um_livro], seq = 1, db_mtime = 10, backups = []\<rparr>"


text \<open>A request body with an empty title and an empty author, all else in order.\<close>

definition d_sem_titulo :: dados where
  "d_sem_titulo = \<lparr>d_titulo = Some [], d_autor = Some [],
                   d_ano_publicacao = Some (JInt 2000), d_preco = Some (JInt 10)\<rparr>"

text \<open>
  CSV files: one whose only data row has a year in the future and a negative price; one
  with a sound row and a row whose price is no number; one whose data rows are short; one
  whose only data row has an empty title and an empty author.
\<close>

definition csv_invalido :: string where
  "csv_invalido =
     ''ID,Titulo,Autor,Ano,Preco'' @ [CR, LF] @ ''7,Livro,Autora,3000,-5'' @ [CR, LF]"

definition csv_um_bom_um_ruim :: string where
  "csv_um_bom_um_ruim =
     ''ID,Titulo,Autor,Ano,Preco'' @ [CR, LF] @ ''1,Livro,Autora,2020,10.5'' @ [CR, LF]
     @ ''2,Outro,Autor,2021,abc'' @ [CR, LF]"

definition csv_curto :: string where
  "csv_curto = ''ID,Titulo'' @ [CR, LF] @ ''1,Livro'' @ [CR, LF] @ [CR, LF] @ ''a,b,c,d'' @ [CR, LF]"

definition csv_sem_titulo :: string where
  "csv_sem_titulo = ''ID,Titulo,Autor,Ano,Preco'' @ [CR, LF] @ ''1,,,2020,10'' @ [CR, LF]"

section \<open>The words of the specification\<close>





text \<open>A table of three books priced 10, 30 and 110.\<close>

definition loja_tres :: estado where
  "loja_tres =
     \<lparr>livros = [\<lparr>id_livro = 1, titulo = ''C'', autor = ''X'', ano_publicacao = 2001, preco = Fin 10\<rparr>,
                 \<lparr>id_livro = 2, titulo = ''A'', autor = ''Y'', ano_publicacao = 2002, preco = Fin 30\<rparr>,
                 \<lparr>id_livro = 3, titulo = ''B'', autor = ''X'', ano_publicacao = 2003, preco = Fin 110\<rparr>],
      seq = 3, db_mtime = 10, backups = []\<rparr>"

section \<open>Runs of mutating requests\<close>










text \<open>A table with one book whose title has a carriage return in it.\<close>

definition livro_cr :: livro where
  "livro_cr = \<lparr>id_livro = 1, titulo = ''a'' @ [CR] @ ''b'', autor = ''A'',
               ano_publicacao = 2000, preco = Fin 10\<rparr>"

definition loja_cr :: estado where
  "loja_cr = \<lparr>livros = [livro_cr], seq = 1, db_mtime = 10, backups = []\<rparr>"

section \<open>The reader, character by character\<close>

text \<open>
  Two views of the reader for the proofs about whole files.  The first feeds characters
  of one line without ending it.  The second reads a text in which every line is
  complete: after each line feed the parser is told of the end of the line, and a parser
  back at the start of a record gives the record out.
\<close>

fun alimenta :: "leitor \<Rightarrow> string \<Rightarrow> excecao + leitor" where
  "alimenta L [] = Inr L"
| "alimenta L (c # cs) =
     (case parse_process_char L (Car c) of
        Inl e \<Rightarrow> Inl e
      | Inr M \<Rightarrow> alimenta M cs)"

fun le_texto :: "leitor \<Rightarrow> string \<Rightarrow> excecao + string list list" where
  "le_texto L [] = le_registros L []"
| "le_texto L (c # cs) =
     (case parse_process_char L (Car c) of
        Inl e \<Rightarrow> Inl e
      | Inr M \<Rightarrow>
          if c = LF then
            (case parse_process_char M EOL of
               Inl e \<Rightarrow> Inl e
             | Inr N \<Rightarrow>
                 if fase N = START_RECORD
                 then (case le_texto leitor_inicial cs of
                         Inl e \<Rightarrow> Inl e
                       | Inr rs \<Rightarrow> Inr (campos N # rs))
                 else le_texto N cs)
          else le_texto M cs)"

text \<open>What \<^verbatim>\<open>writerow\<close> writes before the terminator, and a quoted field between its quotes.\<close>

definition corpo :: "string list \<Rightarrow> string" where
  "corpo fs = (if fs = [[]] then [ASPAS, ASPAS] else junta (map escreve_campo fs))"

definition dobra :: "string \<Rightarrow> string" where
  "dobra f = concat (map (\<lambda>c. if c = ASPAS then [ASPAS, ASPAS] else [c]) f)"

text \<open>
  A field that the round trip through a file keeps: no carriage return in it, and no
  longer than the reader allows.
\<close>

definition campo_ok :: "string \<Rightarrow> bool" where
  "campo_ok f = (CR \<notin> set f \<and> length f \<le> field_limit)"

text \<open>
  A price whose text, as \<^verbatim>\<open>repr\<close> writes it, is read back by \<^verbatim>\<open>float\<close> as the same price (as
  holds of every float but NaN).
\<close>

definition preco_ok :: "pyfloat \<Rightarrow> bool" where
  "preco_ok p = (p \<noteq> NaN \<and> campo_ok (float_repr p) \<and> py_float (float_repr p) = Inr p)"

text \<open>The four fields of a book that an import takes from a file.\<close>

definition sem_id :: "livro \<Rightarrow> string \<times> string \<times> int \<times> pyfloat" where
  "sem_id l = (titulo l, autor l, ano_publicacao l, preco l)"

section \<open>Rejected input leaves the store alone\<close>








lemma py_float_menos5: "py_float ''-5'' = Inr (Fin (- 5))"
  by code_simp



section \<open>Operations on an id that is not in the table\<close>

lemma fazer_backup_tabela [simp]:
  "livros (fazer_backup env st) = livros st"
  "seq (fazer_backup env st) = seq st"
  "db_mtime (fazer_backup env st) = db_mtime st"
  by (simp_all add: fazer_backup_def)

lemma sql_select_id_backup [simp]:
  "sql_select_id i (fazer_backup env st) = sql_select_id i st"
  by (simp add: sql_select_id_def)


lemma py_float_10: "py_float ''10'' = Inr (Fin 10)"
  by code_simp




section \<open>Import: files without rows, rows without five fields\<close>

lemmas leitor_defs =
  csv_reader_def linhas_def leitor_inicial_def parse_process_char.simps parse_add_char_def
  parse_save_field_def fim_de_campo_def eh_quebra_def field_limit_def

lemmas casos_fracos =
  sum.case_cong_weak fase_leitor.case_cong_weak entrada.case_cong_weak
  option.case_cong_weak list.case_cong_weak prod.case_cong_weak

lemma csv_reader_vazio: "csv_reader [] = Inr []"
  by (simp add: csv_reader_def linhas_def leitor_inicial_def)

text \<open>
  Claim C10.  On a file with no content the reader has no first row to skip: in the menu
  front end \<^verbatim>\<open>StopIteration\<close> leaves \<^verbatim>\<open>importar_de_csv\<close>; in the web front end it is caught
  by the handler of the route and becomes the reply 400.  Neither returns a count of
  zero; the snapshot has been taken by then.
\<close>

theorem importar_sem_linhas:
  "importar_de_csv_cli env (Some []) st = (Levanta StopIteration, fazer_backup env st) \<and>
   (nome \<noteq> [] \<and> termina_com ''.csv'' nome \<longrightarrow>
      importar_csv_api env (Some (nome, [])) st
        = ((400, Erro (DeExcecao StopIteration)), fazer_backup env st))"
  by (simp add: importar_de_csv_cli_def importar_csv_api_def csv_reader_vazio)

theorem importar_sem_linhas_witness:
  "''livros.csv'' \<noteq> [] \<and> termina_com ''.csv'' ''livros.csv'' \<and>
   importar_de_csv_cli amb (Some []) loja_um = (Levanta StopIteration, fazer_backup amb loja_um) \<and>
   importar_csv_api amb (Some (''livros.csv'', [])) loja_um
     = ((400, Erro (DeExcecao StopIteration)), fazer_backup amb loja_um)"
  using importar_sem_linhas [where nome = "''livros.csv''" and env = amb and st = loja_um]
  by (simp add: termina_com_def)

lemma linha_curta_api: "length row < 5 \<Longrightarrow> importar_linha_api env idx row acc = Inr acc"
  by (simp add: importar_linha_api_def split: prod.splits)

lemma linha_curta_cli: "length row < 5 \<Longrightarrow> importar_linha_cli row acc = Inr acc"
  by (simp add: importar_linha_cli_def split: prod.splits)

lemma importar_linhas_api_filtra:
  "importar_linhas_api env (filter (\<lambda>(i, r). 5 \<le> length r) irs) acc
     = importar_linhas_api env irs acc"
  by (induction irs arbitrary: acc) (auto simp: linha_curta_api split: sum.splits)

lemma importar_linhas_cli_filtra:
  "importar_linhas_cli (filter (\<lambda>r. 5 \<le> length r) rs) acc = importar_linhas_cli rs acc"
  by (induction rs arbitrary: acc) (auto simp: linha_curta_cli split: sum.splits)

lemma importar_linhas_api_curtas:
  "\<forall>(i, r) \<in> set irs. length r < 5 \<Longrightarrow> importar_linhas_api env irs acc = Inr acc"
  by (induction irs arbitrary: acc) (auto simp: linha_curta_api)

lemma importar_linhas_cli_curtas:
  "\<forall>r \<in> set rs. length r < 5 \<Longrightarrow> importar_linhas_cli rs acc = Inr acc"
  by (induction rs arbitrary: acc) (auto simp: linha_curta_cli)

lemma csv_reader_curto:
  "csv_reader csv_curto = Inr [[''ID'', ''Titulo''], [''1'', ''Livro''], [], [''a'', ''b'', ''c'', ''d'']]"
  by (simp add: csv_curto_def leitor_defs cong: casos_fracos)

text \<open>
  Claim C8.  A row of fewer than five fields leaves the running totals of either import
  loop as they were: nothing inserted, nothing counted, no error line and nothing
  printed.  So either loop gives the same result on the rows as on the rows of five or
  more fields alone (each keeping its number), and a file whose data rows are all short
  is imported with the count 0 and no error, the table unchanged.
\<close>

theorem linhas_curtas_ignoradas:
  "(length row < 5 \<longrightarrow>
      importar_linha_api env idx row acc = Inr acc \<and> importar_linha_cli row acc' = Inr acc') \<and>
   importar_linhas_api env (filter (\<lambda>(i, r). 5 \<le> length r) (enumerate2 rows)) acc
     = importar_linhas_api env (enumerate2 rows) acc \<and>
   importar_linhas_cli (filter (\<lambda>r. 5 \<le> length r) rows) acc' = importar_linhas_cli rows acc' \<and>
   (csv_reader conteudo = Inr (cab # rows) \<and> (\<forall>r \<in> set rows. length r < 5) \<longrightarrow>
      importar_de_csv_cli env (Some conteudo) st
        = (Retorna True [MsgImportados 0], fazer_backup env st) \<and>
      (nome \<noteq> [] \<and> termina_com ''.csv'' nome \<longrightarrow>
         importar_csv_api env (Some (nome, conteudo)) st
           = ((200, Importacao 0 []), fazer_backup env st)))"
proof (intro conjI impI)
  assume h: "csv_reader conteudo = Inr (cab # rows) \<and> (\<forall>r \<in> set rows. length r < 5)"
  then have c: "importar_linhas_cli rows (0, [], fazer_backup env st) = Inr (0, [], fazer_backup env st)"
    by (simp add: importar_linhas_cli_curtas)
  from h have "\<forall>(i, r) \<in> set (enumerate2 rows). length r < 5"
    by (auto simp: enumerate2_def dest: set_zip_rightD)
  then have a: "importar_linhas_api env (enumerate2 rows) (0, [], fazer_backup env st)
      = Inr (0, [], fazer_backup env st)"
    by (rule importar_linhas_api_curtas)
  from h c show "importar_de_csv_cli env (Some conteudo) st
        = (Retorna True [MsgImportados 0], fazer_backup env st)"
    by (simp add: importar_de_csv_cli_def)
  assume "nome \<noteq> [] \<and> termina_com ''.csv'' nome"
  with h a show "importar_csv_api env (Some (nome, conteudo)) st
           = ((200, Importacao 0 []), fazer_backup env st)"
    by (simp add: importar_csv_api_def)
qed (simp_all add: linha_curta_api linha_curta_cli importar_linhas_api_filtra
    importar_linhas_cli_filtra)


theorem linhas_curtas_ignoradas_witness:
  "csv_reader csv_curto = Inr [[''ID'', ''Titulo''], [''1'', ''Livro''], [], [''a'', ''b'', ''c'', ''d'']] \<and>
   importar_linha_api amb 2 [''1'', ''Livro''] (0, [], loja_um) = Inr (0, [], loja_um) \<and>
   importar_linha_cli [''1'', ''Livro''] (0, [], loja_um) = Inr (0, [], loja_um) \<and>
   importar_de_csv_cli amb (Some csv_curto) loja_um
     = (Retorna True [MsgImportados 0], fazer_backup amb loja_um) \<and>
   importar_csv_api amb (Some (''livros.csv'', csv_curto)) loja_um
     = ((200, Importacao 0 []), fazer_backup amb loja_um)"
proof -
  have h1: "length [''1'', ''Livro''] < 5"
    by simp
  have h2: "\<forall>r \<in> set [[''1'', ''Livro''], [], [''a'', ''b'', ''c'', ''d'']]. length r < 5"
    by simp
  have h3: "''livros.csv'' \<noteq> [] \<and> termina_com ''.csv'' ''livros.csv''"
    by (simp add: termina_com_def)
  show ?thesis
    using linhas_curtas_ignoradas [where row = "[''1'', ''Livro'']" and env = amb and idx = 2
      and acc = "(0, [], loja_um)" and acc' = "(0, [], loja_um)" and conteudo = csv_curto
      and cab = "[''ID'', ''Titulo'']" and rows = "[[''1'', ''Livro''], [], [''a'', ''b'', ''c'', ''d'']]"
      and st = loja_um and nome = "''livros.csv''"]
      csv_reader_curto h1 h2 h3
    by blast
qed


section \<open>Import and the checks of \<^verbatim>\<open>adicionar_livro\<close>\<close>

lemma fazer_backup_primeiro:
  "backups st = [] \<Longrightarrow>
   fazer_backup env st
     = st\<lparr>backups := [\<lparr>carimbo = \<lfloor>agora env\<rfloor>, mtime = db_mtime st, copia = livros st\<rparr>]\<rparr>"
  by (simp add: fazer_backup_def instantaneo_def copy2_def limpar_backups_antigos_def)

lemma fazer_backup_loja_vazia:
  "fazer_backup amb loja_vazia
     = \<lparr>livros = [], seq = 0, db_mtime = 0,
        backups = [\<lparr>carimbo = 1000, mtime = 0, copia = []\<rparr>]\<rparr>"
  by (simp add: fazer_backup_primeiro loja_vazia_def amb_def)

lemma loja_vazia_campos: "livros loja_vazia = []" "seq loja_vazia = 0"
  by (simp_all add: loja_vazia_def)

lemma amb_campos: "agora amb = 1000" "ano_atual amb = 2025"
  by (simp_all add: amb_def)

lemma py_int_3000: "py_int ''3000'' = Inr 3000"
  by code_simp
lemma py_int_2020: "py_int ''2020'' = Inr 2020"
  by code_simp
lemma py_int_2021: "py_int ''2021'' = Inr 2021"
  by code_simp
lemma py_float_10_5: "py_float ''10.5'' = Inr (Fin (21 / 2))"
  by code_simp
lemma py_float_abc: "py_float ''abc'' = Inl ValueError"
  by code_simp

lemma csv_reader_invalido:
  "csv_reader csv_invalido
     = Inr [[''ID'', ''Titulo'', ''Autor'', ''Ano'', ''Preco''],
            [''7'', ''Livro'', ''Autora'', ''3000'', ''-5'']]"
  by (simp add: csv_invalido_def leitor_defs cong: casos_fracos)

lemma csv_reader_um_bom_um_ruim:
  "csv_reader csv_um_bom_um_ruim
     = Inr [[''ID'', ''Titulo'', ''Autor'', ''Ano'', ''Preco''],
            [''1'', ''Livro'', ''Autora'', ''2020'', ''10.5''],
            [''2'', ''Outro'', ''Autor'', ''2021'', ''abc'']]"
  by (simp add: csv_um_bom_um_ruim_def leitor_defs cong: casos_fracos)

lemma csv_reader_sem_titulo:
  "csv_reader csv_sem_titulo
     = Inr [[''ID'', ''Titulo'', ''Autor'', ''Ano'', ''Preco''], [''1'', [], [], ''2020'', ''10'']]"
  by (simp add: csv_sem_titulo_def leitor_defs cong: casos_fracos)

text \<open>
  Claim C1 does not hold for the import of the menu front end: \<^verbatim>\<open>importar_de_csv\<close> reads year
  and price and inserts the row without the checks that \<^verbatim>\<open>adicionar_livro\<close> makes.  A data
  row with the year 3000 and the price -5 is imported and counted, and no error is
  reported.
\<close>

theorem importar_cli_sem_validacao:
  "importar_de_csv_cli amb (Some csv_invalido) loja_vazia
     = (Retorna True [MsgImportados 1],
        \<lparr>livros = [\<lparr>id_livro = 1, titulo = ''Livro'', autor = ''Autora'',
                    ano_publicacao = 3000, preco = Fin (- 5)\<rparr>],
         seq = 1, db_mtime = 1000,
         backups = [\<lparr>carimbo = 1000, mtime = 0, copia = []\<rparr>]\<rparr>)"
  by (simp add: importar_de_csv_cli_def csv_reader_invalido fazer_backup_loja_vazia
      importar_linha_cli_def py_int_3000 py_float_menos5 sql_insert_def commit_def amb_campos loja_vazia_campos Let_def)

text \<open>
  The import of the web front end makes the checks: the same file gives the count 0 and
  one error line for row 2, and the file with one sound row and one price that is no
  number gives the count 1 and one error line for row 3.
\<close>

lemma importar_api_valida:
  "importar_csv_api amb (Some (''livros.csv'', csv_invalido)) loja_vazia
     = ((200, Importacao 0 [ErroAno 2 3000]), fazer_backup amb loja_vazia)"
  by (simp add: importar_csv_api_def termina_com_def csv_reader_invalido fazer_backup_loja_vazia
      importar_linha_api_def enumerate2_def py_int_3000 py_float_menos5 amb_campos loja_vazia_campos Let_def)

lemma importar_api_um_bom_um_ruim:
  "importar_csv_api amb (Some (''livros.csv'', csv_um_bom_um_ruim)) loja_vazia
     = ((200, Importacao 1 [ErroExcecao 3 ValueError]),
        \<lparr>livros = [\<lparr>id_livro = 1, titulo = ''Livro'', autor = ''Autora'',
                    ano_publicacao = 2020, preco = Fin (21 / 2)\<rparr>],
         seq = 1, db_mtime = 1000,
         backups = [\<lparr>carimbo = 1000, mtime = 0, copia = []\<rparr>]\<rparr>)"
  by (simp add: importar_csv_api_def termina_com_def csv_reader_um_bom_um_ruim
      fazer_backup_loja_vazia importar_linha_api_def enumerate2_def py_int_2020 py_int_2021
      py_float_10_5 py_float_abc sql_insert_def commit_def amb_campos loja_vazia_campos upt_rec Let_def)

text \<open>
  Claim C9 does not hold for the code: only the menu loop asks for a non-empty title and
  author before it calls \<^verbatim>\<open>adicionar_livro\<close>.  The route that adds a book and both imports
  insert a row whose title and author are empty.
\<close>

theorem titulo_vazio_aceito:
  "adicionar_livro_api amb d_sem_titulo loja_vazia
     = ((201, LivroCriado \<lparr>id_livro = 1, titulo = [], autor = [],
                            ano_publicacao = 2000, preco = Fin 10\<rparr>),
        \<lparr>livros = [\<lparr>id_livro = 1, titulo = [], autor = [],
                    ano_publicacao = 2000, preco = Fin 10\<rparr>],
         seq = 1, db_mtime = 1000,
         backups = [\<lparr>carimbo = 1000, mtime = 0, copia = []\<rparr>]\<rparr>) \<and>
   livros (snd (importar_csv_api amb (Some (''livros.csv'', csv_sem_titulo)) loja_vazia))
     = [\<lparr>id_livro = 1, titulo = [], autor = [], ano_publicacao = 2020, preco = Fin 10\<rparr>] \<and>
   livros (snd (importar_de_csv_cli amb (Some csv_sem_titulo) loja_vazia))
     = [\<lparr>id_livro = 1, titulo = [], autor = [], ano_publicacao = 2020, preco = Fin 10\<rparr>]"
  by (simp add: adicionar_livro_api_def ler_dados_def d_sem_titulo_def
      importar_csv_api_def importar_de_csv_cli_def termina_com_def csv_reader_sem_titulo
      fazer_backup_loja_vazia importar_linha_api_def importar_linha_cli_def enumerate2_def
      py_int_2020 py_float_10 sql_insert_def commit_def amb_campos loja_vazia_campos Let_def)


text \<open>
  In the web front end every row of five fields whose year or price cannot be read, or
  whose year is negative or in the future, or whose price is negative, adds one error
  line with the number of the row and changes nothing else; the loop goes on with the
  next row.
\<close>

theorem importar_api_rejeita_invalidas:
  "py_int ano_txt = Inl ex \<or> (\<exists>ano. py_int ano_txt = Inr ano \<and>
      (py_float preco_txt = Inl ex \<or>
       (\<exists>p. py_float preco_txt = Inr p \<and> (ano < 0 \<or> ano_atual env < ano \<or> flt p 0))))
   \<longrightarrow> (\<exists>e. linha_de e = idx \<and>
          importar_linhas_api env ((idx, [x, t, a, ano_txt, preco_txt]) # resto) (n, erros, st)
            = importar_linhas_api env resto (n, erros @ [e], st))"
  by (auto simp: importar_linha_api_def) (metis linha_de.simps)+

theorem importar_api_rejeita_invalidas_witness:
  "py_int ''3000'' = Inr 3000 \<and> py_float ''-5'' = Inr (Fin (- 5)) \<and> ano_atual amb < 3000 \<and>
   (\<exists>e. linha_de e = 2 \<and>
      importar_linhas_api amb [(2, [''7'', ''Livro'', ''Autora'', ''3000'', ''-5''])] (0, [], loja_vazia)
        = Inr (0, [e], loja_vazia))"
  using importar_api_rejeita_invalidas [where ano_txt = "''3000''" and preco_txt = "''-5''"
      and env = amb and idx = 2 and x = "''7''" and t = "''Livro''" and a = "''Autora''"
      and resto = "[]" and n = 0 and erros = "[]" and st = loja_vazia and ex = ValueError]
    py_int_3000 py_float_menos5
  by (simp add: amb_campos)

section \<open>Search by author\<close>






















section \<open>Statistics\<close>

text \<open>A band has a row exactly when some book is in it, and the row counts its books.\<close>

lemma distribuicao_membro:
  "(f, n) \<in> set (distribuicao_precos st)
     \<longleftrightarrow> n = length (filter (\<lambda>l. faixa_de (preco l) = f) (livros st)) \<and> 0 < n"
  by (cases f) (auto simp: distribuicao_precos_def)

lemma conta_faixa_mset:
  "length (filter (\<lambda>l. faixa_de (preco l) = f) ls)
     = size (filter_mset (\<lambda>p. faixa_de p = f) (mset (map preco ls)))"
  by (induction ls) auto

lemma foldl_fadd_fin:
  "\<forall>p \<in> set ps. \<exists>r. p = Fin r \<Longrightarrow>
   foldl fadd (Fin a) ps = Fin (a + sum_list (map (\<lambda>p. case p of Fin r \<Rightarrow> r | _ \<Rightarrow> 0) ps))"
proof (induction ps arbitrary: a)
  case Nil
  then show ?case by simp
next
  case (Cons p ps)
  then obtain r where "p = Fin r" by auto
  with Cons show ?case by (simp add: add.assoc)
qed

lemma precos_tres:
  assumes "mset (map preco ls) = {#Fin 10, Fin 30, Fin 110#}"
  shows "soma_precos (sort_key titulo ls) = Fin 150" and "length ls = 3"
proof -
  let ?ps = "map preco (sort_key titulo ls)"
  let ?V = "\<lambda>p. case p of Fin r \<Rightarrow> r | _ \<Rightarrow> (0::rat)"
  have m: "mset ?ps = {#Fin 10, Fin 30, Fin 110#}"
    using assms by simp
  then have "set_mset (mset ?ps) = {Fin 10, Fin 30, Fin 110}"
    by simp
  then have fin: "\<forall>p \<in> set ?ps. \<exists>r. p = Fin r"
    by auto
  have "sum_list (map ?V ?ps) = sum_mset (image_mset ?V (mset ?ps))"
    by (metis mset_map sum_mset_sum_list)
  also have "\<dots> = 150"
    by (simp only: m) simp
  finally have "sum_list (map ?V ?ps) = 150" .
  with foldl_fadd_fin [OF fin, of 0] show "soma_precos (sort_key titulo ls) = Fin 150"
    by (simp add: soma_precos_def)
  have "size (mset (map preco ls)) = 3"
    by (simp only: assms) simp
  then show "length ls = 3" by simp
qed

text \<open>
  Claim C2, as amended.  For every table of three books priced 10, 30 and 110 the price
  statistics have three rows: one book below 20, one from 20 to below 50, one from 100
  up.  The band from 50 to below 100, which no book is in, has no row (the query groups
  the rows that exist).  The report counts three books, their total 150 and the mean
  price 50.
\<close>

theorem estatisticas_tres_livros:
  "mset (map preco (livros st)) = {#Fin 10, Fin 30, Fin 110#} \<longrightarrow>
     distribuicao_precos st = [(Acima100, 1), (Ate20, 1), (De20a50, 1)] \<and>
     De50a100 \<notin> fst ` set (distribuicao_precos st) \<and>
     (\<exists>r. gerar_relatorio_html st = Inr r \<and> total_livros r = 3 \<and>
          valor_total r = Fin 150 \<and> preco_medio r = Fin 50)"
proof
  assume h: "mset (map preco (livros st)) = {#Fin 10, Fin 30, Fin 110#}"
  have c: "length (filter (\<lambda>l. faixa_de (preco l) = f) (livros st))
      = size (filter_mset (\<lambda>p. faixa_de p = f) {#Fin 10, Fin 30, Fin 110#})" for f
    by (simp only: conta_faixa_mset h)
  have c1: "length (filter (\<lambda>l. faixa_de (preco l) = Acima100) (livros st)) = 1"
    by (simp only: c) (simp add: faixa_de_def)
  have c2: "length (filter (\<lambda>l. faixa_de (preco l) = Ate20) (livros st)) = 1"
    by (simp only: c) (simp add: faixa_de_def)
  have c3: "length (filter (\<lambda>l. faixa_de (preco l) = De20a50) (livros st)) = 1"
    by (simp only: c) (simp add: faixa_de_def)
  have c4: "length (filter (\<lambda>l. faixa_de (preco l) = De50a100) (livros st)) = 0"
    by (simp only: c) (simp add: faixa_de_def)
  have d: "distribuicao_precos st = [(Acima100, 1), (Ate20, 1), (De20a50, 1)]"
    by (simp add: distribuicao_precos_def c1 c2 c3 c4)
  from precos_tres [OF h] have s: "soma_precos (sort_key titulo (livros st)) = Fin 150"
    and n: "length (livros st) = 3" by simp_all
  from n have "sort_key titulo (livros st) \<noteq> []"
    by (metis length_sort list.size(3) zero_neq_numeral)
  with s n have "\<exists>r. gerar_relatorio_html st = Inr r \<and> total_livros r = 3 \<and>
          valor_total r = Fin 150 \<and> preco_medio r = Fin 50"
    by (simp add: gerar_relatorio_html_def Let_def)
  with d show "distribuicao_precos st = [(Acima100, 1), (Ate20, 1), (De20a50, 1)] \<and>
     De50a100 \<notin> fst ` set (distribuicao_precos st) \<and>
     (\<exists>r. gerar_relatorio_html st = Inr r \<and> total_livros r = 3 \<and>
          valor_total r = Fin 150 \<and> preco_medio r = Fin 50)"
    by simp
qed

lemma precos_loja_tres: "mset (map preco (livros loja_tres)) = {#Fin 10, Fin 30, Fin 110#}"
  by (simp add: loja_tres_def)

theorem estatisticas_tres_livros_witness:
  "mset (map preco (livros loja_tres)) = {#Fin 10, Fin 30, Fin 110#} \<and>
   distribuicao_precos loja_tres = [(Acima100, 1), (Ate20, 1), (De20a50, 1)] \<and>
   (\<exists>r. gerar_relatorio_html loja_tres = Inr r \<and> total_livros r = 3 \<and>
        valor_total r = Fin 150 \<and> preco_medio r = Fin 50)"
  using estatisticas_tres_livros [where st = loja_tres] precos_loja_tres
  by blast

text \<open>
  The claim as stated fails: the result has no entry with the count 0 for the empty
  band.
\<close>

lemma distribuicao_loja_tres:
  "distribuicao_precos loja_tres = [(Acima100, 1), (Ate20, 1), (De20a50, 1)]"
  by (simp add: distribuicao_precos_def loja_tres_def faixa_de_def)

theorem estatisticas_quatro_faixas_counterexample:
  "set (distribuicao_precos loja_tres)
     \<noteq> {(Ate20, 1), (De20a50, 1), (De50a100, 0), (Acima100, 1)} \<and>
   length (distribuicao_precos loja_tres) = 3 \<and>
   (De50a100, 0) \<notin> set (distribuicao_precos loja_tres)"
  by (auto simp: distribuicao_loja_tres)


section \<open>Retention of snapshots\<close>


























section \<open>Export and import again\<close>

lemma str_int_1: "str_int 1 = ''1''"
  by code_simp
lemma str_int_2000: "str_int 2000 = ''2000''"
  by code_simp
lemma digitos_de_10: "digitos_de 10 = ''10''"
  by code_simp

lemma repr_abs_10: "repr_abs 10 = ''10.0''"
  by (simp add: repr_abs_def digitos_de_10 formata_def tira_zeros_def)

lemma py_int_2000: "py_int ''2000'' = Inr 2000"
  by code_simp
lemma py_float_10_0: "py_float ''10.0'' = Inr (Fin 10)"
  by code_simp

lemma campos_livro_cr:
  "campos_de_livro livro_cr = [''1'', ''a'' @ [CR] @ ''b'', ''A'', ''2000'', ''10.0'']"
  by (simp add: campos_de_livro_def livro_cr_def str_int_1 str_int_2000 repr_abs_10)

lemma conteudo_loja_cr:
  "conteudo_csv [livro_cr]
     = ''ID,T'' @ [CHR 0xED] @ ''tulo,Autor,Ano de Publica'' @ [CHR 0xE7, CHR 0xE3] @ ''o,Pre''
       @ [CHR 0xE7] @ ''o'' @ [CR, LF]
       @ ''1,'' @ [ASPAS] @ ''a'' @ [CR] @ ''b'' @ [ASPAS] @ '',A,2000,10.0'' @ [CR, LF]"
  by (simp add: conteudo_csv_def writerows_def writerow_def cabecalho_def campos_livro_cr
      escreve_campo_def precisa_aspas_def)

lemma csv_reader_loja_cr:
  "csv_reader (conteudo_csv [livro_cr])
     = Inr [[''ID'', ''T'' @ [CHR 0xED] @ ''tulo'', ''Autor'',
             ''Ano de Publica'' @ [CHR 0xE7, CHR 0xE3] @ ''o'', ''Pre'' @ [CHR 0xE7] @ ''o''],
            [''1'', ''a'' @ [LF] @ ''b'', ''A'', ''2000'', ''10.0'']]"
  unfolding conteudo_loja_cr by (simp add: leitor_defs cong: casos_fracos)

text \<open>
  Claim C6 does not hold for the code.  The export opens its file with \<^verbatim>\<open>newline=''\<close> and
  writes a carriage return inside a quoted field as it is; both imports open the file
  without \<^verbatim>\<open>newline=''\<close>, so the carriage return is read as a line feed.  A book whose
  title is \<^verbatim>\<open>a\rb\<close> comes back with the title \<^verbatim>\<open>a\nb\<close>.
\<close>

theorem ida_e_volta_troca_cr:
  "exportar_para_csv_cli loja_cr = (Retorna True [MsgExportados 1], Some (conteudo_csv [livro_cr])) \<and>
   importar_de_csv_cli amb (Some (conteudo_csv [livro_cr])) loja_vazia
     = (Retorna True [MsgImportados 1],
        \<lparr>livros = [\<lparr>id_livro = 1, titulo = ''a'' @ [LF] @ ''b'', autor = ''A'',
                    ano_publicacao = 2000, preco = Fin 10\<rparr>],
         seq = 1, db_mtime = 1000,
         backups = [\<lparr>carimbo = 1000, mtime = 0, copia = []\<rparr>]\<rparr>) \<and>
   map titulo (livros loja_cr) = [''a'' @ [CR] @ ''b''] \<and>
   map titulo (livros (snd (importar_csv_api amb (Some (''livros.csv'', conteudo_csv [livro_cr]))
                              loja_vazia)))
     = [''a'' @ [LF] @ ''b'']"
proof -
  have l: "livros loja_cr = [livro_cr]" and t: "titulo livro_cr = ''a'' @ [CR] @ ''b''"
    by (simp_all add: loja_cr_def livro_cr_def)
  show ?thesis
    by (simp add: exportar_para_csv_cli_def l t importar_de_csv_cli_def
        importar_csv_api_def termina_com_def enumerate2_def
        csv_reader_loja_cr fazer_backup_loja_vazia importar_linha_cli_def importar_linha_api_def
        py_int_2000 py_float_10_0 sql_insert_def commit_def amb_campos loja_vazia_campos Let_def)
qed


section \<open>Reading back what was written\<close>

subsection \<open>The reader on whole lines and on characters\<close>

lemma processa_linha_append:
  "processa_linha L (p @ q)
     = (case alimenta L p of Inl e \<Rightarrow> Inl e | Inr M \<Rightarrow> processa_linha M q)"
  by (induction p arbitrary: L) (auto split: sum.splits)

lemma alimenta_snoc:
  "alimenta L (p @ [c])
     = (case alimenta L p of Inl e \<Rightarrow> Inl e | Inr M \<Rightarrow> parse_process_char M (Car c))"
  by (induction p arbitrary: L) (auto split: sum.splits)

lemma le_registros_linhas_aux:
  assumes "s = [] \<longrightarrow> p = []" "s \<noteq> [] \<longrightarrow> last s = LF"
  shows "le_registros L (linhas_aux (rev p) s)
     = (case alimenta L p of Inl e \<Rightarrow> Inl e | Inr M \<Rightarrow> le_texto M s)"
  using assms
proof (induction s arbitrary: p L)
  case Nil
  then show ?case by simp
next
  case (Cons c cs)
  have fim: "cs \<noteq> [] \<longrightarrow> last cs = LF"
    using Cons.prems(2) by auto
  show ?case
  proof (cases "c = LF")
    case True
    have ih: "le_registros N (linhas_aux [] cs) = le_texto N cs" for N
      using Cons.IH [of "[]" N] fim by simp
    have "linhas_aux (rev p) (c # cs) = (p @ [LF]) # linhas_aux [] cs"
      using True by simp
    then show ?thesis
      using True
      by (simp add: processa_linha_append ih split: sum.splits)
  next
    case False
    with Cons.prems(2) have ne: "cs \<noteq> []" by auto
    have "linhas_aux (rev p) (c # cs) = linhas_aux (rev (p @ [c])) cs"
      using False by simp
    moreover have "le_registros L (linhas_aux (rev (p @ [c])) cs)
        = (case alimenta L (p @ [c]) of Inl e \<Rightarrow> Inl e | Inr M \<Rightarrow> le_texto M cs)"
      using ne fim by (intro Cons.IH) simp_all
    ultimately show ?thesis
      using False by (simp add: alimenta_snoc split: sum.splits)
  qed
qed

lemma csv_reader_le_texto:
  assumes "traduz_nl conteudo = s" "s \<noteq> [] \<longrightarrow> last s = LF"
  shows "csv_reader conteudo = le_texto leitor_inicial s"
  using le_registros_linhas_aux [of s "[]" leitor_inicial] assms
  by (simp add: csv_reader_def linhas_def)

lemmas passo_defs =
  parse_process_char.simps parse_add_char_def parse_save_field_def fim_de_campo_def eh_quebra_def

lemma dobra_Cons: "dobra (c # f) = (if c = ASPAS then [ASPAS, ASPAS] else [c]) @ dobra f"
  by (simp add: dobra_def)

lemma le_texto_entre_aspas:
  "length fd + length f \<le> field_limit \<Longrightarrow>
   le_texto \<lparr>campos = cs, campo = fd, fase = IN_QUOTED_FIELD\<rparr> (dobra f @ rest)
     = le_texto \<lparr>campos = cs, campo = fd @ f, fase = IN_QUOTED_FIELD\<rparr> rest"
proof (induction f arbitrary: fd)
  case Nil
  then show ?case by (simp add: dobra_def)
next
  case (Cons c f)
  then have lim: "\<not> field_limit \<le> length fd" and l2: "length (fd @ [c]) + length f \<le> field_limit"
    by simp_all
  have ih: "le_texto \<lparr>campos = cs, campo = fd @ [c], fase = IN_QUOTED_FIELD\<rparr> (dobra f @ rest)
     = le_texto \<lparr>campos = cs, campo = fd @ c # f, fase = IN_QUOTED_FIELD\<rparr> rest"
    using Cons.IH [OF l2] by simp
  show ?case
  proof (cases "c = ASPAS")
    case True
    then show ?thesis
      using lim ih by (simp add: dobra_Cons passo_defs)
  next
    case False
    then show ?thesis
      using lim ih by (cases "c = LF") (simp_all add: dobra_Cons passo_defs)
  qed
qed

lemma le_texto_sem_aspas:
  "set g \<inter> {VIRGULA, ASPAS, CR, LF} = {} \<Longrightarrow> length fd + length g \<le> field_limit \<Longrightarrow>
   le_texto \<lparr>campos = cs, campo = fd, fase = IN_FIELD\<rparr> (g @ rest)
     = le_texto \<lparr>campos = cs, campo = fd @ g, fase = IN_FIELD\<rparr> rest"
proof (induction g arbitrary: fd)
  case Nil
  then show ?case by simp
next
  case (Cons c g)
  then have lim: "\<not> field_limit \<le> length fd" and l2: "length (fd @ [c]) + length g \<le> field_limit"
    and c: "c \<noteq> VIRGULA" "c \<noteq> ASPAS" "c \<noteq> CR" "c \<noteq> LF"
    and g: "set g \<inter> {VIRGULA, ASPAS, CR, LF} = {}"
    by auto
  have ih: "le_texto \<lparr>campos = cs, campo = fd @ [c], fase = IN_FIELD\<rparr> (g @ rest)
     = le_texto \<lparr>campos = cs, campo = fd @ c # g, fase = IN_FIELD\<rparr> rest"
    using Cons.IH [OF g l2] by simp
  show ?case
    using lim c ih by (simp add: passo_defs)
qed

lemma escreve_campo_dobra:
  "escreve_campo f = (if precisa_aspas f then ASPAS # dobra f @ [ASPAS] else f)"
  by (simp add: escreve_campo_def dobra_def)

text \<open>
  A written field read from the start of a record or of a field: up to the state in
  which the parser holds the whole field and waits for what ends it.
\<close>

lemma le_texto_campo:
  assumes "ph = START_RECORD \<or> ph = START_FIELD" "length f \<le> field_limit"
  shows "le_texto \<lparr>campos = cs, campo = [], fase = ph\<rparr> (escreve_campo f @ rest)
     = (if precisa_aspas f
        then le_texto \<lparr>campos = cs, campo = f, fase = QUOTE_IN_QUOTED_FIELD\<rparr> rest
        else if f = [] then le_texto \<lparr>campos = cs, campo = [], fase = ph\<rparr> rest
        else le_texto \<lparr>campos = cs, campo = f, fase = IN_FIELD\<rparr> rest)"
proof (cases "precisa_aspas f")
  case True
  have "le_texto \<lparr>campos = cs, campo = [], fase = ph\<rparr> (ASPAS # dobra f @ ASPAS # rest)
      = le_texto \<lparr>campos = cs, campo = [], fase = IN_QUOTED_FIELD\<rparr> (dobra f @ ASPAS # rest)"
    using assms(1) by (auto simp: passo_defs)
  also have "\<dots> = le_texto \<lparr>campos = cs, campo = [] @ f, fase = IN_QUOTED_FIELD\<rparr> (ASPAS # rest)"
    using assms(2) by (intro le_texto_entre_aspas) simp
  also have "\<dots> = le_texto \<lparr>campos = cs, campo = f, fase = QUOTE_IN_QUOTED_FIELD\<rparr> rest"
    by (simp add: passo_defs)
  finally show ?thesis
    using True by (simp add: escreve_campo_dobra)
next
  case False
  show ?thesis
  proof (cases f)
    case Nil
    with False show ?thesis by (simp add: escreve_campo_dobra)
  next
    case (Cons c g)
    with False have c: "c \<noteq> VIRGULA" "c \<noteq> ASPAS" "c \<noteq> CR" "c \<noteq> LF"
      and g: "set g \<inter> {VIRGULA, ASPAS, CR, LF} = {}"
      by (auto simp: precisa_aspas_def)
    have "le_texto \<lparr>campos = cs, campo = [], fase = ph\<rparr> (c # g @ rest)
        = le_texto \<lparr>campos = cs, campo = [c], fase = IN_FIELD\<rparr> (g @ rest)"
      using assms(1) c by (auto simp: passo_defs field_limit_def)
    also have "\<dots> = le_texto \<lparr>campos = cs, campo = [c] @ g, fase = IN_FIELD\<rparr> rest"
      using g assms(2) Cons by (intro le_texto_sem_aspas) simp_all
    finally show ?thesis
      using False Cons by (simp add: escreve_campo_dobra)
  qed
qed

lemma le_texto_campo_virgula:
  assumes "ph = START_RECORD \<or> ph = START_FIELD" "length f \<le> field_limit"
  shows "le_texto \<lparr>campos = cs, campo = [], fase = ph\<rparr> (escreve_campo f @ VIRGULA # rest)
     = le_texto \<lparr>campos = cs @ [f], campo = [], fase = START_FIELD\<rparr> rest"
  using assms(1) by (auto simp: le_texto_campo [OF assms] passo_defs)

lemma le_texto_campo_fim:
  assumes "ph = START_FIELD \<or> ph = START_RECORD \<and> (f \<noteq> [] \<or> cs \<noteq> [])" "length f \<le> field_limit"
    and "ph = START_RECORD \<longrightarrow> f \<noteq> []"
  shows "le_texto \<lparr>campos = cs, campo = [], fase = ph\<rparr> (escreve_campo f @ LF # rest)
     = (case le_texto leitor_inicial rest of Inl e \<Rightarrow> Inl e | Inr rs \<Rightarrow> Inr ((cs @ [f]) # rs))"
proof -
  have ph: "ph = START_RECORD \<or> ph = START_FIELD" using assms(1) by auto
  show ?thesis
    using assms(1,3) by (auto simp: le_texto_campo [OF ph assms(2)] passo_defs cong: sum.case_cong)
qed

lemma le_texto_registro:
  assumes "\<forall>f \<in> set (f # fs). length f \<le> field_limit"
    "ph = START_FIELD \<or> ph = START_RECORD \<and> f # fs \<noteq> [[]]"
  shows "le_texto \<lparr>campos = cs, campo = [], fase = ph\<rparr>
           (junta (map escreve_campo (f # fs)) @ LF # rest)
     = (case le_texto leitor_inicial rest of
          Inl e \<Rightarrow> Inl e | Inr rs \<Rightarrow> Inr ((cs @ f # fs) # rs))"
  using assms
proof (induction fs arbitrary: f cs ph)
  case Nil
  then show ?case
    using le_texto_campo_fim [of ph f cs rest] by auto
next
  case (Cons g gs)
  have ph: "ph = START_RECORD \<or> ph = START_FIELD" using Cons.prems(2) by auto
  have "le_texto \<lparr>campos = cs, campo = [], fase = ph\<rparr>
           (junta (map escreve_campo (f # g # gs)) @ LF # rest)
      = le_texto \<lparr>campos = cs, campo = [], fase = ph\<rparr>
           (escreve_campo f @ VIRGULA # (junta (map escreve_campo (g # gs)) @ LF # rest))"
    by simp
  also have "\<dots> = le_texto \<lparr>campos = cs @ [f], campo = [], fase = START_FIELD\<rparr>
           (junta (map escreve_campo (g # gs)) @ LF # rest)"
    using ph Cons.prems(1) by (intro le_texto_campo_virgula) simp_all
  also have "\<dots> = (case le_texto leitor_inicial rest of
          Inl e \<Rightarrow> Inl e | Inr rs \<Rightarrow> Inr (((cs @ [f]) @ g # gs) # rs))"
    using Cons.prems(1) by (intro Cons.IH) simp_all
  finally show ?case by (simp cong: sum.case_cong)
qed

lemma le_texto_corpo:
  assumes "\<forall>f \<in> set r. length f \<le> field_limit"
  shows "le_texto leitor_inicial (corpo r @ LF # rest)
     = (case le_texto leitor_inicial rest of Inl e \<Rightarrow> Inl e | Inr rs \<Rightarrow> Inr (r # rs))"
proof (cases "r = [[]]")
  case True
  then show ?thesis
    by (simp add: corpo_def leitor_inicial_def passo_defs cong: sum.case_cong)
next
  case False
  show ?thesis
  proof (cases r)
    case Nil
    then show ?thesis
      by (simp add: corpo_def leitor_inicial_def passo_defs cong: sum.case_cong)
  next
    case (Cons f fs)
    with False assms show ?thesis
      using le_texto_registro [of f fs START_RECORD "[]" rest]
      by (auto simp: corpo_def leitor_inicial_def cong: sum.case_cong)
  qed
qed

lemma le_texto_arquivo:
  assumes "\<forall>r \<in> set rs. \<forall>f \<in> set r. length f \<le> field_limit"
  shows "le_texto leitor_inicial (concat (map (\<lambda>r. corpo r @ [LF]) rs)) = Inr rs"
  using assms
proof (induction rs)
  case Nil
  then show ?case by (simp add: leitor_inicial_def)
next
  case (Cons r rs)
  then show ?case
    using le_texto_corpo [of r "concat (map (\<lambda>r. corpo r @ [LF]) rs)"] by simp
qed

subsection \<open>Universal newlines on a written file\<close>

lemma traduz_nl_outro: "c \<noteq> CR \<Longrightarrow> traduz_nl (c # s) = c # traduz_nl s"
  by (cases s) auto

lemma traduz_nl_terminador:
  "CR \<notin> set xs \<Longrightarrow> traduz_nl (xs @ CR # LF # ys) = xs @ LF # traduz_nl ys"
  by (induction xs) (auto simp: traduz_nl_outro)

lemma set_escreve_campo: "set (escreve_campo f) \<subseteq> set f \<union> {ASPAS}"
  by (auto simp: escreve_campo_def split: if_splits)

lemma set_junta: "set (junta fs) \<subseteq> \<Union> (set ` set fs) \<union> {VIRGULA}"
  by (induction fs rule: junta.induct) auto

lemma cr_fora_do_corpo:
  assumes "\<forall>f \<in> set r. CR \<notin> set f"
  shows "CR \<notin> set (corpo r)"
proof -
  have "set (junta (map escreve_campo r)) \<subseteq> \<Union> (set ` set r) \<union> {ASPAS, VIRGULA}"
    using set_junta [of "map escreve_campo r"] set_escreve_campo by fastforce
  with assms show ?thesis
    by (auto simp: corpo_def)
qed

lemma writerow_corpo: "writerow r = corpo r @ [CR, LF]"
  by (simp add: writerow_def corpo_def)

lemma traduz_nl_writerows:
  assumes "\<forall>r \<in> set rs. \<forall>f \<in> set r. CR \<notin> set f"
  shows "traduz_nl (writerows rs) = concat (map (\<lambda>r. corpo r @ [LF]) rs)"
  using assms
proof (induction rs)
  case Nil
  then show ?case by (simp add: writerows_def)
next
  case (Cons r rs)
  then have "CR \<notin> set (corpo r)" by (intro cr_fora_do_corpo) simp
  then have "traduz_nl (corpo r @ CR # LF # writerows rs) = corpo r @ LF # traduz_nl (writerows rs)"
    by (rule traduz_nl_terminador)
  with Cons show ?case
    by (simp add: writerows_def writerow_corpo)
qed

lemma ultimo_das_linhas:
  "rs \<noteq> [] \<Longrightarrow> last (concat (map (\<lambda>r. corpo r @ [LF]) rs)) = LF"
  by (induction rs rule: rev_induct) auto

text \<open>
  What \<^verbatim>\<open>csv.writer\<close> wrote is read back by \<^verbatim>\<open>csv.reader\<close> through a file opened with universal
  newlines, when no field has a carriage return or is longer than the limit.
\<close>

lemma csv_reader_writerows:
  assumes "\<forall>r \<in> set rs. \<forall>f \<in> set r. campo_ok f"
  shows "csv_reader (writerows rs) = Inr rs"
proof -
  let ?s = "concat (map (\<lambda>r. corpo r @ [LF]) rs)"
  have t: "traduz_nl (writerows rs) = ?s"
    using assms by (intro traduz_nl_writerows) (simp add: campo_ok_def)
  have "?s \<noteq> [] \<longrightarrow> last ?s = LF"
    using ultimo_das_linhas [of rs] by (cases rs) auto
  with t have "csv_reader (writerows rs) = le_texto leitor_inicial ?s"
    by (rule csv_reader_le_texto)
  also have "\<dots> = Inr rs"
    using assms by (intro le_texto_arquivo) (simp add: campo_ok_def)
  finally show ?thesis .
qed

subsection \<open>Integers written and read\<close>

lemma of_char_char_digito: "d < 10 \<Longrightarrow> (of_char (char_digito d) :: nat) = 48 + d"
  by (simp add: char_digito_def)

lemma eh_digito_char_digito: "d < 10 \<Longrightarrow> eh_digito (char_digito d)"
  by (simp add: eh_digito_def of_char_char_digito)

lemma val_digito_char_digito: "d < 10 \<Longrightarrow> val_digito (char_digito d) = d"
  by (simp add: val_digito_def of_char_char_digito)

lemma digitos_de_digitos: "c \<in> set (digitos_de n) \<Longrightarrow> eh_digito c"
proof (induction n rule: digitos_de.induct)
  case (1 n)
  then show ?case
    by (subst (asm) (2) digitos_de.simps) (auto simp: eh_digito_char_digito split: if_splits)
qed

lemma digitos_de_nao_vazio: "digitos_de n \<noteq> []"
  by (subst digitos_de.simps) simp

lemma nat_de_digitos_snoc:
  "nat_de_digitos (ds @ [c]) = 10 * nat_de_digitos ds + val_digito c"
  by (simp add: nat_de_digitos_def)

lemma nat_de_digitos_de: "nat_de_digitos (digitos_de n) = n"
proof (induction n rule: digitos_de.induct)
  case (1 n)
  show ?case
  proof (cases "n < 10")
    case True
    then show ?thesis
      by (subst digitos_de.simps) (simp add: nat_de_digitos_def val_digito_char_digito)
  next
    case False
    with 1 have "nat_de_digitos (digitos_de (n div 10)) = n div 10" by simp
    with False show ?thesis
      by (subst digitos_de.simps) (simp add: nat_de_digitos_snoc val_digito_char_digito)
  qed
qed

lemma grupo_digitos_todos:
  "ds \<noteq> [] \<Longrightarrow> \<forall>c \<in> set ds. eh_digito c \<Longrightarrow> grupo_digitos ds = Some ds"
proof (induction ds rule: grupo_digitos.induct)
  case 1
  then show ?case by simp
next
  case (2 c)
  then show ?case by simp
next
  case (3 c d cs)
  then have "eh_digito d" by simp
  then have "d \<noteq> CHR ''_''" by (auto simp: eh_digito_def)
  with 3 show ?case by simp
qed

lemma digito_nao_espaco: "eh_digito c \<Longrightarrow> \<not> eh_espaco c"
  by (auto simp: eh_digito_def eh_espaco_def)

lemma strip_sem_espaco: "\<forall>c \<in> set s. \<not> eh_espaco c \<Longrightarrow> strip s = s"
proof -
  assume h: "\<forall>c \<in> set s. \<not> eh_espaco c"
  have d: "dropWhile eh_espaco xs = xs" if "\<forall>c \<in> set xs. \<not> eh_espaco c" for xs
    using that by (cases xs) auto
  from h have a: "dropWhile eh_espaco s = s" by (rule d)
  from h have b: "dropWhile eh_espaco (rev s) = rev s" by (intro d) simp
  show ?thesis by (simp add: strip_def a b)
qed

lemma py_int_str_int: "py_int (str_int i) = Inr i"
proof -
  let ?ds = "digitos_de (nat \<bar>i\<bar>)"
  have d: "\<forall>c \<in> set ?ds. eh_digito c" using digitos_de_digitos by blast
  have g: "grupo_digitos ?ds = Some ?ds"
    using digitos_de_nao_vazio d by (rule grupo_digitos_todos)
  obtain c cs where cs: "?ds = c # cs" using digitos_de_nao_vazio [of "nat \<bar>i\<bar>"] by (cases ?ds) auto
  with d have "eh_digito c" by simp
  then have c: "c \<noteq> CHR ''-''" "c \<noteq> CHR ''+''" by (auto simp: eh_digito_def)
  have menos: "\<not> eh_espaco CHR ''-''" by (simp add: eh_espaco_def)
  show ?thesis
  proof (cases "i < 0")
    case True
    then have s: "str_int i = CHR ''-'' # ?ds" by (simp add: str_int_def)
    have "strip (CHR ''-'' # ?ds) = CHR ''-'' # ?ds"
      using d menos by (intro strip_sem_espaco) (auto dest: digito_nao_espaco)
    with s g True show ?thesis
      by (simp add: py_int_def nat_de_digitos_de)
  next
    case False
    then have s: "str_int i = ?ds" by (simp add: str_int_def)
    have "strip ?ds = ?ds"
      using d by (intro strip_sem_espaco) (auto dest: digito_nao_espaco)
    moreover have "sinal ?ds = (1, ?ds)" using cs c by simp
    ultimately show ?thesis
      using s g False by (simp add: py_int_def nat_de_digitos_de)
  qed
qed

lemma length_digitos_de: "n < 10 ^ k \<Longrightarrow> 0 < k \<Longrightarrow> length (digitos_de n) \<le> k"
proof (induction n arbitrary: k rule: digitos_de.induct)
  case (1 n)
  show ?case
  proof (cases "n < 10")
    case True
    with 1 show ?thesis by (subst digitos_de.simps) simp
  next
    case False
    from "1.prems" obtain j where kj: "k = Suc j"
      by (auto simp: gr0_conv_Suc)
    with "1.prems" False have "j \<noteq> 0" by (intro notI) simp
    with kj have k: "k = Suc j" "0 < j" by simp_all
    with "1.prems" have "n div 10 < 10 ^ j" by (simp add: less_mult_imp_div_less mult.commute)
    with 1 False k have "length (digitos_de (n div 10)) \<le> j" by simp
    with False k show ?thesis by (subst digitos_de.simps) simp
  qed
qed

lemma campo_ok_str_int: "\<bar>i\<bar> < 2 ^ 63 \<Longrightarrow> campo_ok (str_int i)"
proof -
  assume "\<bar>i\<bar> < 2 ^ 63"
  then have "nat \<bar>i\<bar> < 10 ^ 19" by simp
  then have l: "length (digitos_de (nat \<bar>i\<bar>)) \<le> 19" by (rule length_digitos_de) simp
  have "\<not> eh_digito CR" by (simp add: eh_digito_def)
  then have "CR \<notin> set (digitos_de (nat \<bar>i\<bar>))" using digitos_de_digitos by blast
  with l show ?thesis
    by (auto simp: campo_ok_def str_int_def field_limit_def)
qed


subsection \<open>Books written and imported\<close>

lemma sem_id_inserido:
  "sem_id \<lparr>id_livro = i, titulo = titulo l, autor = autor l,
           ano_publicacao = ano_publicacao l, preco = preco l\<rparr> = sem_id l"
  by (simp add: sem_id_def)

lemma importar_linha_cli_livro:
  assumes "preco_ok (preco l)" "- (2 ^ 63) \<le> ano_publicacao l" "ano_publicacao l < 2 ^ 63"
  shows "\<exists>st'. importar_linha_cli (campos_de_livro l) (n, imp, st) = Inr (n + 1, imp, st') \<and>
     map sem_id (livros st') = map sem_id (livros st) @ [sem_id l]"
  using assms
  by (simp add: importar_linha_cli_def campos_de_livro_def py_int_str_int preco_ok_def
      sql_insert_def Let_def sem_id_inserido)

lemma importar_linhas_cli_livros:
  assumes "\<forall>l \<in> set ls. preco_ok (preco l) \<and> - (2 ^ 63) \<le> ano_publicacao l \<and>
             ano_publicacao l < 2 ^ 63"
  shows "\<exists>st'. importar_linhas_cli (map campos_de_livro ls) (n, imp, st)
           = Inr (n + length ls, imp, st') \<and>
     map sem_id (livros st') = map sem_id (livros st) @ map sem_id ls"
  using assms
proof (induction ls arbitrary: n st)
  case Nil
  then show ?case by simp
next
  case (Cons l ls)
  then obtain st1 where a: "importar_linha_cli (campos_de_livro l) (n, imp, st) = Inr (n + 1, imp, st1)"
    and b: "map sem_id (livros st1) = map sem_id (livros st) @ [sem_id l]"
    using importar_linha_cli_livro [of l n imp st] by auto
  from Cons obtain st2 where c: "importar_linhas_cli (map campos_de_livro ls) (n + 1, imp, st1)
           = Inr (n + 1 + length ls, imp, st2)"
    and d: "map sem_id (livros st2) = map sem_id (livros st1) @ map sem_id ls"
    by (metis list.set_intros(2))
  from a c have "importar_linhas_cli (map campos_de_livro (l # ls)) (n, imp, st)
      = Inr (n + length (l # ls), imp, st2)"
    by simp
  moreover from b d have "map sem_id (livros st2) = map sem_id (livros st) @ map sem_id (l # ls)"
    by simp
  ultimately show ?case by blast
qed

lemma importar_linha_api_livro:
  assumes "preco_ok (preco l)" "0 \<le> ano_publicacao l" "ano_publicacao l \<le> ano_atual env"
    "ano_atual env < 2 ^ 63" "\<not> flt (preco l) 0"
  shows "\<exists>st'. importar_linha_api env idx (campos_de_livro l) (n, er, st) = Inr (n + 1, er, st') \<and>
     map sem_id (livros st') = map sem_id (livros st) @ [sem_id l]"
  using assms
  by (simp add: importar_linha_api_def campos_de_livro_def py_int_str_int preco_ok_def
      sql_insert_def Let_def sem_id_inserido)

lemma importar_linhas_api_livros:
  assumes "\<forall>l \<in> set ls. preco_ok (preco l) \<and> 0 \<le> ano_publicacao l \<and>
             ano_publicacao l \<le> ano_atual env \<and> \<not> flt (preco l) 0"
    "ano_atual env < 2 ^ 63"
  shows "\<exists>st'. importar_linhas_api env (zip [k ..< k + length ls] (map campos_de_livro ls))
             (n, er, st)
           = Inr (n + length ls, er, st') \<and>
     map sem_id (livros st') = map sem_id (livros st) @ map sem_id ls"
  using assms(1)
proof (induction ls arbitrary: k n st)
  case Nil
  then show ?case by simp
next
  case (Cons l ls)
  then obtain st1 where a: "importar_linha_api env k (campos_de_livro l) (n, er, st)
        = Inr (n + 1, er, st1)"
    and b: "map sem_id (livros st1) = map sem_id (livros st) @ [sem_id l]"
    using importar_linha_api_livro [of l env k n er st] assms(2) by auto
  from Cons obtain st2 where c: "importar_linhas_api env
          (zip [Suc k ..< Suc k + length ls] (map campos_de_livro ls)) (n + 1, er, st1)
           = Inr (n + 1 + length ls, er, st2)"
    and d: "map sem_id (livros st2) = map sem_id (livros st1) @ map sem_id ls"
    by (metis list.set_intros(2))
  have "[k ..< k + length (l # ls)] = k # [Suc k ..< Suc k + length ls]"
    by (subst upt_rec) simp
  with a c have "importar_linhas_api env
          (zip [k ..< k + length (l # ls)] (map campos_de_livro (l # ls))) (n, er, st)
      = Inr (n + length (l # ls), er, st2)"
    by simp
  moreover from b d have "map sem_id (livros st2) = map sem_id (livros st) @ map sem_id (l # ls)"
    by simp
  ultimately show ?case by blast
qed

lemma campos_ok_cabecalho: "\<forall>f \<in> set cabecalho. campo_ok f"
  by (simp add: cabecalho_def campo_ok_def field_limit_def)

lemma campos_ok_livro:
  assumes "campo_ok (titulo l)" "campo_ok (autor l)" "preco_ok (preco l)"
    "\<bar>id_livro l\<bar> < 2 ^ 63" "\<bar>ano_publicacao l\<bar> < 2 ^ 63"
  shows "\<forall>f \<in> set (campos_de_livro l). campo_ok f"
  using assms by (simp add: campos_de_livro_def campo_ok_str_int preco_ok_def)

lemma csv_reader_conteudo:
  assumes "\<forall>l \<in> set ls. campo_ok (titulo l) \<and> campo_ok (autor l) \<and> preco_ok (preco l) \<and>
             \<bar>id_livro l\<bar> < 2 ^ 63 \<and> \<bar>ano_publicacao l\<bar> < 2 ^ 63"
  shows "csv_reader (conteudo_csv ls) = Inr (cabecalho # map campos_de_livro ls)"
proof -
  have "conteudo_csv ls = writerows (cabecalho # map campos_de_livro ls)"
    by (simp add: conteudo_csv_def writerows_def)
  moreover have "\<forall>r \<in> set (cabecalho # map campos_de_livro ls). \<forall>f \<in> set r. campo_ok f"
    using assms campos_ok_cabecalho campos_ok_livro by auto
  ultimately show ?thesis
    by (simp only: csv_reader_writerows)
qed

text \<open>
  Without carriage returns the round trip holds.  Take a table that is not empty, whose
  titles and authors have no carriage return and are within the field limit of the
  reader, whose years are valid and whose prices are not negative and are written by
  \<^verbatim>\<open>repr\<close> as a text that \<^verbatim>\<open>float\<close> reads back.  Both exports write the same file, and either
  import of that file into an empty table inserts as many books, with the same title,
  author, year and price in the same order, and reports no error.
\<close>

theorem ida_e_volta_sem_cr:
  "livros origem \<noteq> [] \<and>
   (\<forall>l \<in> set (livros origem).
      campo_ok (titulo l) \<and> campo_ok (autor l) \<and> preco_ok (preco l) \<and> \<not> flt (preco l) 0 \<and>
      \<bar>id_livro l\<bar> < 2 ^ 63 \<and> 0 \<le> ano_publicacao l \<and> ano_publicacao l \<le> ano_atual env) \<and>
   ano_atual env < 2 ^ 63 \<and> livros st = [] \<and> nome \<noteq> [] \<and> termina_com ''.csv'' nome
   \<longrightarrow>
   (\<exists>arq. snd (exportar_para_csv_cli origem) = Some arq \<and>
      exportar_csv_api origem = (200, Arquivo arq) \<and>
      (\<exists>st'. importar_de_csv_cli env (Some arq) st
                = (Retorna True [MsgImportados (length (livros origem))], st') \<and>
             map sem_id (livros st') = map sem_id (livros origem)) \<and>
      (\<exists>st'. importar_csv_api env (Some (nome, arq)) st
                = ((200, Importacao (length (livros origem)) []), st') \<and>
             map sem_id (livros st') = map sem_id (livros origem)))"
proof
  let ?ls = "livros origem"
  let ?arq = "conteudo_csv ?ls"
  let ?st1 = "fazer_backup env st"
  assume h: "livros origem \<noteq> [] \<and>
   (\<forall>l \<in> set (livros origem).
      campo_ok (titulo l) \<and> campo_ok (autor l) \<and> preco_ok (preco l) \<and> \<not> flt (preco l) 0 \<and>
      \<bar>id_livro l\<bar> < 2 ^ 63 \<and> 0 \<le> ano_publicacao l \<and> ano_publicacao l \<le> ano_atual env) \<and>
   ano_atual env < 2 ^ 63 \<and> livros st = [] \<and> nome \<noteq> [] \<and> termina_com ''.csv'' nome"
  then have ne: "?ls \<noteq> []" and ano: "ano_atual env < 2 ^ 63" and vazio: "livros ?st1 = []"
    and nome: "nome \<noteq> []" "termina_com ''.csv'' nome"
    by simp_all
  from h have ok: "\<forall>l \<in> set ?ls. campo_ok (titulo l) \<and> campo_ok (autor l) \<and> preco_ok (preco l) \<and>
      \<not> flt (preco l) 0 \<and> \<bar>id_livro l\<bar> < 2 ^ 63 \<and> 0 \<le> ano_publicacao l \<and>
      ano_publicacao l \<le> ano_atual env"
    by blast
  with ano have lim: "\<forall>l \<in> set ?ls. \<bar>ano_publicacao l\<bar> < 2 ^ 63"
    by fastforce
  have lido: "csv_reader ?arq = Inr (cabecalho # map campos_de_livro ?ls)"
    using ok lim by (intro csv_reader_conteudo) blast
  have n0: "length ?ls \<noteq> 0" using ne by simp
  have "\<forall>l \<in> set ?ls. preco_ok (preco l) \<and> - (2 ^ 63) \<le> ano_publicacao l \<and>
             ano_publicacao l < 2 ^ 63"
    using ok lim by fastforce
  then obtain sc where c1: "importar_linhas_cli (map campos_de_livro ?ls) (0, [], ?st1)
           = Inr (0 + length ?ls, [], sc)"
    and c2: "map sem_id (livros sc) = map sem_id (livros ?st1) @ map sem_id ?ls"
    using importar_linhas_cli_livros [of ?ls 0 "[]" ?st1] by blast
  have cli: "importar_de_csv_cli env (Some ?arq) st
      = (Retorna True [MsgImportados (length ?ls)], commit env sc)"
    using lido c1 n0 by (simp add: importar_de_csv_cli_def)
  have cli2: "map sem_id (livros (commit env sc)) = map sem_id ?ls"
    using c2 vazio by (simp add: commit_def)
  have "\<forall>l \<in> set ?ls. preco_ok (preco l) \<and> 0 \<le> ano_publicacao l \<and>
             ano_publicacao l \<le> ano_atual env \<and> \<not> flt (preco l) 0"
    using ok by blast
  then obtain sa where a1: "importar_linhas_api env
        (zip [2 ..< 2 + length ?ls] (map campos_de_livro ?ls)) (0, [], ?st1)
           = Inr (0 + length ?ls, [], sa)"
    and a2: "map sem_id (livros sa) = map sem_id (livros ?st1) @ map sem_id ?ls"
    using importar_linhas_api_livros [OF _ ano, of ?ls 2 0 "[]" ?st1] by blast
  have "enumerate2 (map campos_de_livro ?ls)
      = zip [2 ..< 2 + length ?ls] (map campos_de_livro ?ls)"
    by (simp only: enumerate2_def length_map)
  with a1 have a3: "importar_linhas_api env (enumerate2 (map campos_de_livro ?ls)) (0, [], ?st1)
      = Inr (length ?ls, [], sa)"
    by simp
  have api: "importar_csv_api env (Some (nome, ?arq)) st
      = ((200, Importacao (length ?ls) []), commit env sa)"
    using lido a3 n0 nome by (simp add: importar_csv_api_def)
  have api2: "map sem_id (livros (commit env sa)) = map sem_id ?ls"
    using a2 vazio by (simp add: commit_def)
  have e1: "snd (exportar_para_csv_cli origem) = Some ?arq"
    using ne by (simp add: exportar_para_csv_cli_def)
  have e2: "exportar_csv_api origem = (200, Arquivo ?arq)"
    using ne by (simp add: exportar_csv_api_def)
  from e1 e2 cli cli2 api api2
  show "\<exists>arq. snd (exportar_para_csv_cli origem) = Some arq \<and>
      exportar_csv_api origem = (200, Arquivo arq) \<and>
      (\<exists>st'. importar_de_csv_cli env (Some arq) st
                = (Retorna True [MsgImportados (length (livros origem))], st') \<and>
             map sem_id (livros st') = map sem_id (livros origem)) \<and>
      (\<exists>st'. importar_csv_api env (Some (nome, arq)) st
                = ((200, Importacao (length (livros origem)) []), st') \<and>
             map sem_id (livros st') = map sem_id (livros origem))"
    by blast
qed

lemma digitos_de_30: "digitos_de 30 = ''30''"
  by code_simp

lemma repr_abs_30: "repr_abs 30 = ''30.0''"
  by (simp add: repr_abs_def digitos_de_30 formata_def tira_zeros_def)

lemma py_float_30_0: "py_float ''30.0'' = Inr (Fin 30)"
  by code_simp

lemma preco_ok_30: "preco_ok (Fin 30)"
  by (simp add: preco_ok_def repr_abs_30 py_float_30_0 campo_ok_def field_limit_def)

theorem ida_e_volta_sem_cr_witness:
  "livros loja_um = [um_livro] \<and> campo_ok (titulo um_livro) \<and> campo_ok (autor um_livro) \<and>
   preco_ok (preco um_livro) \<and> livros loja_vazia = [] \<and>
   (\<exists>arq. snd (exportar_para_csv_cli loja_um) = Some arq \<and>
      (\<exists>st'. importar_de_csv_cli amb (Some arq) loja_vazia
                = (Retorna True [MsgImportados 1], st') \<and>
             map sem_id (livros st') = [sem_id um_livro]) \<and>
      (\<exists>st'. importar_csv_api amb (Some (''livros.csv'', arq)) loja_vazia
                = ((200, Importacao 1 []), st') \<and>
             map sem_id (livros st') = [sem_id um_livro]))"
proof -
  have l: "livros loja_um = [um_livro]"
    by (simp add: loja_um_def)
  have c: "campo_ok (titulo um_livro)" "campo_ok (autor um_livro)" "preco_ok (preco um_livro)"
    "\<not> flt (preco um_livro) 0" "\<bar>id_livro um_livro\<bar> < 2 ^ 63" "0 \<le> ano_publicacao um_livro"
    "ano_publicacao um_livro \<le> ano_atual amb"
    using preco_ok_30 by (simp_all add: um_livro_def campo_ok_def field_limit_def amb_def)
  have a: "ano_atual amb < 2 ^ 63" "livros loja_vazia = []" "''livros.csv'' \<noteq> []"
    "termina_com ''.csv'' ''livros.csv''"
    by (simp_all add: amb_def loja_vazia_def termina_com_def)
  from ida_e_volta_sem_cr [where origem = loja_um and env = amb and st = loja_vazia
      and nome = "''livros.csv''"] l c a
  have "\<exists>arq. snd (exportar_para_csv_cli loja_um) = Some arq \<and>
      exportar_csv_api loja_um = (200, Arquivo arq) \<and>
      (\<exists>st'. importar_de_csv_cli amb (Some arq) loja_vazia
                = (Retorna True [MsgImportados (length (livros loja_um))], st') \<and>
             map sem_id (livros st') = map sem_id (livros loja_um)) \<and>
      (\<exists>st'. importar_csv_api amb (Some (''livros.csv'', arq)) loja_vazia
                = ((200, Importacao (length (livros loja_um)) []), st') \<and>
             map sem_id (livros st') = map sem_id (livros loja_um))"
    by simp
  with l c a show ?thesis by auto
qed


end
